theory Spec2Isabelle
  imports Complex_Main "HOL-Library.Word"
begin

unbundle bit_operations_syntax

section \<open>The Thorlabs CCS100 device adaptor (thorlabs_CCS100.py)\<close>

text \<open>
  The adaptor is one Python class, \<^verbatim>\<open>Spectrometer\<close>, whose methods call the entry
  points of the vendor library \<^verbatim>\<open>TLCCS_64.dll\<close> through ctypes. The library is closed:
  it is a parameter of the model, a record of functions over a driver state \<open>'d\<close> that
  the adaptor never inspects. Each entry point returns the status code of the call, the
  final contents of its output arguments and the next driver state.

  Conventions of the embedding:
  \<^item> a method of the class takes the object (a record of its attributes) and the world
    (driver state, the trace of external calls, the files written) and returns its
    result with the updated object and world; a raised exception is \<open>Inl\<close>, and the
    object and world are returned in that case too, since attributes assigned before
    the raise stay assigned;
  \<^item> \<^verbatim>\<open>c_uint32\<close> and \<^verbatim>\<open>c_int32\<close> are \<open>32 word\<close>; \<^verbatim>\<open>.value\<close> of a \<^verbatim>\<open>c_int32\<close> is \<open>sint\<close>;
  \<^item> a Python float is the real number it denotes, and a comparison of floats is that
    of the reals; the sum and the difference of the tolerance test in
    \<^verbatim>\<open>set_integration_time\<close> are rounded to a double, as the interpreter does; the length
    of the sleep in the polling loop is a tenth of the integration time, unrounded;
    infinities and NaN are outside the model;
  \<^item> the \<^verbatim>\<open>print\<close> calls are left out; \<^verbatim>\<open>verbose\<close> and \<^verbatim>\<open>very_verbose\<close> guard nothing else.
\<close>

subsection \<open>Exceptions, external calls, the world\<close>

datatype exn =
    UserWarning int        \<comment> \<open>raised by \<^verbatim>\<open>check_error\<close>; the message carries the code (\<^verbatim>\<open>%i\<close>)\<close>
  | AssertionError
  | ValueError             \<comment> \<open>\<^verbatim>\<open>time.sleep\<close> of a negative length\<close>
  | UnicodeEncodeError     \<comment> \<open>\<^verbatim>\<open>.encode('ascii')\<close>\<close>
  | UnicodeDecodeError     \<comment> \<open>\<^verbatim>\<open>.decode('ascii')\<close>\<close>
  | AttributeError         \<comment> \<open>reading \<^verbatim>\<open>self.scan_data\<close> before any scan\<close>
  | NameError              \<comment> \<open>reading the module global \<^verbatim>\<open>spec\<close> when it is not bound\<close>

type_synonym handle_t = "32 word"

datatype event =
    Init string bool bool                \<comment> \<open>resourceName, IDQuery, resetDevice\<close>
  | IdentificationQuery handle_t
  | GetWavelengthData handle_t bool      \<comment> \<open>instrumentHandle, dataSet\<close>
  | GetDeviceStatus handle_t
  | StartScan handle_t
  | GetScanData handle_t
  | GetIntegrationTime handle_t
  | SetIntegrationTime handle_t real
  | Close handle_t
  | Sleep real                           \<comment> \<open>\<^verbatim>\<open>time.sleep\<close>\<close>
  | Plot string "real list" "real list"  \<comment> \<open>title, x data, y data\<close>
  | Show
  | SaveFig string

record 'd driver =
  tlccs_init :: "string \<Rightarrow> bool \<Rightarrow> bool \<Rightarrow> 'd \<Rightarrow> int \<times> handle_t \<times> 'd"
  tlccs_identificationQuery :: "handle_t \<Rightarrow> 'd \<Rightarrow> int \<times> string list \<times> 'd"
  tlccs_getWavelengthData :: "handle_t \<Rightarrow> bool \<Rightarrow> 'd \<Rightarrow> int \<times> (real list \<times> real \<times> real) \<times> 'd"
  tlccs_getDeviceStatus :: "handle_t \<Rightarrow> 'd \<Rightarrow> int \<times> 32 word \<times> 'd"
  tlccs_startScan :: "handle_t \<Rightarrow> 'd \<Rightarrow> int \<times> 'd"
  tlccs_getScanData :: "handle_t \<Rightarrow> 'd \<Rightarrow> int \<times> real list \<times> 'd"
  tlccs_getIntegrationTime :: "handle_t \<Rightarrow> 'd \<Rightarrow> int \<times> real \<times> 'd"
  tlccs_setIntegrationTime :: "handle_t \<Rightarrow> real \<Rightarrow> 'd \<Rightarrow> int \<times> 'd"
  tlccs_close :: "handle_t \<Rightarrow> 'd \<Rightarrow> int \<times> 'd"

text \<open>
  A file is the list of the strings written to it, one per \<^verbatim>\<open>file.write\<close> call, in
  order; its content is their concatenation.
\<close>

record 'd world =
  dev :: 'd
  trace :: "event list"
  files :: "string \<rightharpoonup> string list"

definition emit :: "event \<Rightarrow> 'd \<Rightarrow> 'd world \<Rightarrow> 'd world" where
  "emit e d w = w\<lparr>dev := d, trace := trace w @ [e]\<rparr>"

subsection \<open>The registered driver calls\<close>

text \<open>
  \<^verbatim>\<open>check_error\<close> is the \<^verbatim>\<open>restype\<close> of every registered entry point: ctypes calls it with
  the integer the library returned, and its result, or the exception it raises, is the
  result of the call.
\<close>

definition check_error :: "int \<Rightarrow> exn + int" where
  "check_error error_code =
     (if error_code \<noteq> 0 then Inl (UserWarning error_code) else Inr error_code)"

text \<open>
  A ctypes array of \<open>n\<close> doubles starts as \<open>n\<close> zeros and keeps its length whatever the
  library writes: \<open>c_array n xs\<close> is the buffer after the library wrote \<open>xs\<close> from its
  start. \<^verbatim>\<open>.value\<close> of an \<open>n\<close>-byte \<^verbatim>\<open>c_char\<close> buffer is its bytes up to the first NUL.
  The identification query gets five such buffers.
\<close>

definition c_array :: "nat \<Rightarrow> real list \<Rightarrow> real list" where
  "c_array n xs = take n (xs @ replicate n 0)"

definition c_char_value :: "nat \<Rightarrow> string \<Rightarrow> string" where
  "c_char_value n xs = takeWhile (\<lambda>c. c \<noteq> CHR 0x00) (take n xs)"

definition is_ascii :: "string \<Rightarrow> bool" where
  "is_ascii xs = list_all (\<lambda>c. (of_char c :: nat) < 128) xs"

definition encode_ascii :: "string \<Rightarrow> exn + string" where
  "encode_ascii xs = (if is_ascii xs then Inr xs else Inl UnicodeEncodeError)"

definition dll_init ::
  "'d driver \<Rightarrow> string \<Rightarrow> bool \<Rightarrow> bool \<Rightarrow> 'd world \<Rightarrow> (exn + int) \<times> handle_t \<times> 'd world" where
  "dll_init drv resourceName IDQuery resetDevice w =
     (case tlccs_init drv resourceName IDQuery resetDevice (dev w) of
        (code, h, d) \<Rightarrow>
          (check_error code, h, emit (Init resourceName IDQuery resetDevice) d w))"

definition dll_get_device_info ::
  "'d driver \<Rightarrow> handle_t \<Rightarrow> 'd world \<Rightarrow> (exn + int) \<times> string list \<times> 'd world" where
  "dll_get_device_info drv h w =
     (case tlccs_identificationQuery drv h (dev w) of
        (code, bufs, d) \<Rightarrow>
          (check_error code,
           take 5 (bufs @ replicate 5 []),
           emit (IdentificationQuery h) d w))"

definition dll_get_wavelength_data ::
  "'d driver \<Rightarrow> handle_t \<Rightarrow> bool \<Rightarrow> 'd world
     \<Rightarrow> (exn + int) \<times> (real list \<times> real \<times> real) \<times> 'd world" where
  "dll_get_wavelength_data drv h dataSet w =
     (case tlccs_getWavelengthData drv h dataSet (dev w) of
        (code, (wave_data, wave_min, wave_max), d) \<Rightarrow>
          (check_error code, (c_array 3648 wave_data, wave_min, wave_max),
           emit (GetWavelengthData h dataSet) d w))"

definition dll_get_status ::
  "'d driver \<Rightarrow> handle_t \<Rightarrow> 'd world \<Rightarrow> (exn + int) \<times> 32 word \<times> 'd world" where
  "dll_get_status drv h w =
     (case tlccs_getDeviceStatus drv h (dev w) of
        (code, st, d) \<Rightarrow> (check_error code, st, emit (GetDeviceStatus h) d w))"

definition dll_start_scan ::
  "'d driver \<Rightarrow> handle_t \<Rightarrow> 'd world \<Rightarrow> (exn + int) \<times> 'd world" where
  "dll_start_scan drv h w =
     (case tlccs_startScan drv h (dev w) of
        (code, d) \<Rightarrow> (check_error code, emit (StartScan h) d w))"

definition dll_get_scan_data ::
  "'d driver \<Rightarrow> handle_t \<Rightarrow> 'd world \<Rightarrow> (exn + int) \<times> real list \<times> 'd world" where
  "dll_get_scan_data drv h w =
     (case tlccs_getScanData drv h (dev w) of
        (code, xs, d) \<Rightarrow> (check_error code, c_array 3648 xs, emit (GetScanData h) d w))"

definition dll_get_integration_time ::
  "'d driver \<Rightarrow> handle_t \<Rightarrow> 'd world \<Rightarrow> (exn + int) \<times> real \<times> 'd world" where
  "dll_get_integration_time drv h w =
     (case tlccs_getIntegrationTime drv h (dev w) of
        (code, t, d) \<Rightarrow> (check_error code, t, emit (GetIntegrationTime h) d w))"

definition dll_set_integration_time ::
  "'d driver \<Rightarrow> handle_t \<Rightarrow> real \<Rightarrow> 'd world \<Rightarrow> (exn + int) \<times> 'd world" where
  "dll_set_integration_time drv h t w =
     (case tlccs_setIntegrationTime drv h t (dev w) of
        (code, d) \<Rightarrow> (check_error code, emit (SetIntegrationTime h t) d w))"

definition dll_close ::
  "'d driver \<Rightarrow> handle_t \<Rightarrow> 'd world \<Rightarrow> (exn + int) \<times> 'd world" where
  "dll_close drv h w =
     (case tlccs_close drv h (dev w) of
        (code, d) \<Rightarrow> (check_error code, emit (Close h) d w))"

subsection \<open>The Spectrometer object\<close>

text \<open>
  \<^verbatim>\<open>scan_data\<close> is first assigned by \<^verbatim>\<open>_get_scan_data\<close>: until then the attribute does
  not exist (\<open>None\<close>). The other attributes are assigned during \<^verbatim>\<open>__init__\<close>.
\<close>

record spectrometer =
  name :: string
  verbose :: bool
  very_verbose :: bool
  handle :: handle_t
  device_info :: "string list"
  wavelength_data :: "real list"
  wavelength_min :: real
  wavelength_max :: real
  status :: "32 word"
  status_idle_soft_trig :: bool
  status_idle_ext_trig :: bool
  status_scan_starting :: bool
  status_scan_in_progress :: bool
  status_scan_ready :: bool
  integration_time_s :: real
  scan_data :: "real list option"

text \<open>
  \<^verbatim>\<open>_get_status\<close> first rebinds \<^verbatim>\<open>self.status\<close> to a fresh \<^verbatim>\<open>c_int32\<close>, which the
  library then writes: when the call raises, \<^verbatim>\<open>self.status\<close> is that word and the five
  flags are the old ones. \<^verbatim>\<open>&\<close> is Python's conjunction of integers, two's complement
  with unbounded sign extension, as \<open>AND\<close> on \<open>int\<close> is.
\<close>

definition get_status ::
  "'d driver \<Rightarrow> spectrometer \<Rightarrow> 'd world \<Rightarrow> (exn + 32 word) \<times> spectrometer \<times> 'd world" where
  "get_status drv self w =
     (case dll_get_status drv (handle self) w of
        (r, st, w') \<Rightarrow>
          (case r of
             Inl e \<Rightarrow> (Inl e, self\<lparr>status := st\<rparr>, w')
           | Inr _ \<Rightarrow>
               (Inr st,
                self\<lparr>status := st,
                  status_idle_soft_trig := (sint st AND 0x0002 \<noteq> 0),
                  status_idle_ext_trig := (sint st AND 0x0080 \<noteq> 0),
                  status_scan_starting := (sint st AND 0x0008 \<noteq> 0),
                  status_scan_in_progress := (sint st AND 0x0004 \<noteq> 0),
                  status_scan_ready := (sint st AND 0x0010 \<noteq> 0)\<rparr>,
                w')))"

definition get_device_info ::
  "'d driver \<Rightarrow> spectrometer \<Rightarrow> 'd world \<Rightarrow> (exn + string list) \<times> spectrometer \<times> 'd world" where
  "get_device_info drv self w =
     (case dll_get_device_info drv (handle self) w of
        (r, bufs, w') \<Rightarrow>
          (case r of
             Inl e \<Rightarrow> (Inl e, self, w')
           | Inr _ \<Rightarrow>
               (let info = map (c_char_value 256) bufs
                in if list_all is_ascii info
                   then (Inr info, self\<lparr>device_info := info\<rparr>, w')
                   else (Inl UnicodeDecodeError, self, w'))))"

definition get_wavelength_data ::
  "'d driver \<Rightarrow> spectrometer \<Rightarrow> bool \<Rightarrow> 'd world
     \<Rightarrow> (exn + real list) \<times> spectrometer \<times> 'd world" where
  "get_wavelength_data drv self user_calibration w =
     (case dll_get_wavelength_data drv (handle self) user_calibration w of
        (r, (wave_data, wave_min, wave_max), w') \<Rightarrow>
          (case r of
             Inl e \<Rightarrow> (Inl e, self, w')
           | Inr _ \<Rightarrow>
               (Inr wave_data,
                self\<lparr>wavelength_data := wave_data,
                  wavelength_min := wave_min,
                  wavelength_max := wave_max\<rparr>,
                w')))"

definition start_scan ::
  "'d driver \<Rightarrow> spectrometer \<Rightarrow> 'd world \<Rightarrow> (exn + unit) \<times> spectrometer \<times> 'd world" where
  "start_scan drv self w =
     (case dll_start_scan drv (handle self) w of
        (r, w') \<Rightarrow>
          (case r of Inl e \<Rightarrow> (Inl e, self, w') | Inr _ \<Rightarrow> (Inr (), self, w')))"

definition get_scan_data ::
  "'d driver \<Rightarrow> spectrometer \<Rightarrow> 'd world \<Rightarrow> (exn + real list) \<times> spectrometer \<times> 'd world" where
  "get_scan_data drv self w =
     (case dll_get_scan_data drv (handle self) w of
        (r, data, w') \<Rightarrow>
          (case r of
             Inl e \<Rightarrow> (Inl e, self, w')
           | Inr _ \<Rightarrow> (Inr data, self\<lparr>scan_data := Some data\<rparr>, w')))"

definition get_integration_time ::
  "'d driver \<Rightarrow> spectrometer \<Rightarrow> 'd world \<Rightarrow> (exn + real) \<times> spectrometer \<times> 'd world" where
  "get_integration_time drv self w =
     (case dll_get_integration_time drv (handle self) w of
        (r, t, w') \<Rightarrow>
          (case r of
             Inl e \<Rightarrow> (Inl e, self, w')
           | Inr _ \<Rightarrow> (Inr t, self\<lparr>integration_time_s := t\<rparr>, w')))"

subsection \<open>Setting the integration time\<close>

text \<open>
  The argument is any Python value. \<open>num_value\<close> is the number it denotes when it is an
  instance of \<^verbatim>\<open>int\<close> or of \<^verbatim>\<open>float\<close>, the test of the first assertion; \<^verbatim>\<open>bool\<close> is a
  subclass of \<^verbatim>\<open>int\<close>, with \<^verbatim>\<open>True == 1\<close>. Python compares an \<^verbatim>\<open>int\<close> with a \<^verbatim>\<open>float\<close>
  by value, and ctypes converts the number to a \<^verbatim>\<open>c_double\<close>.
\<close>

datatype pyval = PyNone | PyBool bool | PyInt int | PyFloat real | PyStr string

fun num_value :: "pyval \<Rightarrow> real option" where
  "num_value (PyBool b) = Some (if b then 1 else 0)"
| "num_value (PyInt i) = Some (of_int i)"
| "num_value (PyFloat x) = Some x"
| "num_value PyNone = None"
| "num_value (PyStr s) = None"

text \<open>
  The tolerance test adds and subtracts in Python floats, IEEE 754 doubles: the result
  is the exact sum or difference rounded to the nearest double, a tie going to the even
  significand. A double has 53 significant bits: in the binade \<open>2 ^ e \<le> \<bar>x\<bar> < 2 ^ (e + 1)\<close>
  the doubles are the multiples of \<open>2 ^ (e - 52)\<close>, and below \<open>2 ^ (- 1022)\<close> those of
  \<open>2 ^ (- 1074)\<close>. \<open>binade n x\<close> finds \<open>e\<close> for a positive \<open>x\<close> in at most \<open>n\<close> steps;
  the exponents of doubles lie between \<open>- 1074\<close> and \<open>1023\<close>. Results of \<open>2 ^ 1024\<close> and
  more, infinite in Python, do not arise from operands bounded as the range assertion
  bounds them. The literal \<^verbatim>\<open>1e-2\<close> is the double nearest to \<open>1 / 100\<close>. The bounds
  of the range test are written as the reals \<open>1 / 100000\<close> and \<open>60\<close>: \<^verbatim>\<open>6e1\<close> is 60,
  and comparing a double or an \<^verbatim>\<open>int\<close> with the double \<^verbatim>\<open>1e-5\<close> gives what comparing
  it with \<open>1 / 100000\<close> gives (\<open>range_literal\<close> and \<open>range_literal_int\<close> below).
\<close>

definition round_even :: "real \<Rightarrow> int" where
  "round_even x =
     (let n = \<lfloor>x\<rfloor>; d = x - of_int n
      in if d < 1 / 2 then n else if 1 / 2 < d then n + 1 else if even n then n else n + 1)"

fun binade :: "nat \<Rightarrow> real \<Rightarrow> int" where
  "binade 0 x = 0"
| "binade (Suc n) x =
     (if 2 \<le> x then binade n (x / 2) + 1
      else if x < 1 then binade n (2 * x) - 1
      else 0)"

definition pow2 :: "int \<Rightarrow> real" where
  "pow2 k = (if 0 \<le> k then 2 ^ nat k else 1 / 2 ^ nat (- k))"

definition round_double :: "real \<Rightarrow> real" where
  "round_double x =
     (if x = 0 then 0
      else
        (let e = max (- 1022) (binade 1075 \<bar>x\<bar>); q = pow2 (e - 52)
         in sgn x * of_int (round_even (\<bar>x\<bar> / q)) * q))"

definition float_add :: "real \<Rightarrow> real \<Rightarrow> real" where
  "float_add a b = round_double (a + b)"

definition float_sub :: "real \<Rightarrow> real \<Rightarrow> real" where
  "float_sub a b = round_double (a - b)"

definition tol_s :: real where
  "tol_s = round_double (1 / 100)"

definition set_integration_time ::
  "'d driver \<Rightarrow> spectrometer \<Rightarrow> pyval \<Rightarrow> 'd world \<Rightarrow> (exn + unit) \<times> spectrometer \<times> 'd world" where
  "set_integration_time drv self integration_time_s' w =
     (case num_value integration_time_s' of
        None \<Rightarrow> (Inl AssertionError, self, w)
      | Some t \<Rightarrow>
          if \<not> (1 / 100000 \<le> t \<and> t \<le> 60) then (Inl AssertionError, self, w)
          else
            (case dll_set_integration_time drv (handle self) t w of
               (Inl e, w1) \<Rightarrow> (Inl e, self, w1)
             | (Inr _, w1) \<Rightarrow>
                 (case get_integration_time drv self w1 of
                    (Inl e, self2, w2) \<Rightarrow> (Inl e, self2, w2)
                  | (Inr _, self2, w2) \<Rightarrow>
                      if \<not> integration_time_s self2 \<le> float_add t tol_s
                      then (Inl AssertionError, self2, w2)
                      else if \<not> integration_time_s self2 \<ge> float_sub t tol_s
                      then (Inl AssertionError, self2, w2)
                      else (Inr (), self2, w2))))"

text \<open>The conjunction of the two assertions on the value read back.\<close>

definition within_tolerance :: "real \<Rightarrow> real \<Rightarrow> bool" where
  "within_tolerance t a = (float_sub t tol_s \<le> a \<and> a \<le> float_add t tol_s)"

subsection \<open>Acquiring a spectrum\<close>

text \<open>
  \<^verbatim>\<open>time.sleep\<close> raises \<^verbatim>\<open>ValueError\<close> for a negative length and otherwise returns after
  that many seconds; the clock is not modelled, the call is recorded in the trace.
\<close>

definition time_sleep :: "real \<Rightarrow> 'd world \<Rightarrow> (exn + unit) \<times> 'd world" where
  "time_sleep secs w =
     (if secs < 0 then (Inl ValueError, w)
      else (Inr (), w\<lparr>trace := trace w @ [Sleep secs]\<rparr>))"

text \<open>
  The polling loop of \<^verbatim>\<open>get_spectrum\<close> has no bound of its own. The model counts its
  iterations down from a fuel \<open>n\<close>: the outcome \<open>None\<close> says that the loop is still
  running after \<open>n\<close> iterations, \<open>Some\<close> that it was left, normally or by an exception.
\<close>

fun wait_for_scan ::
  "nat \<Rightarrow> 'd driver \<Rightarrow> spectrometer \<Rightarrow> 'd world
     \<Rightarrow> (exn + unit) option \<times> spectrometer \<times> 'd world" where
  "wait_for_scan n drv self w =
     (if \<not> status_scan_ready self then
        (case n of
           0 \<Rightarrow> (None, self, w)
         | Suc m \<Rightarrow>
             (case time_sleep (integration_time_s self / 10) w of
                (Inl e, w1) \<Rightarrow> (Some (Inl e), self, w1)
              | (Inr _, w1) \<Rightarrow>
                  (case get_status drv self w1 of
                     (Inl e, self2, w2) \<Rightarrow> (Some (Inl e), self2, w2)
                   | (Inr _, self2, w2) \<Rightarrow> wait_for_scan m drv self2 w2)))
      else (Some (Inr ()), self, w))"

declare wait_for_scan.simps [simp del]

text \<open>The external calls of one iteration of the loop.\<close>

definition poll :: "spectrometer \<Rightarrow> event list" where
  "poll self = [Sleep (integration_time_s self / 10), GetDeviceStatus (handle self)]"

text \<open>
  \<^verbatim>\<open>'%0.3f' % x\<close> and \<^verbatim>\<open>str(x)\<close> on floats are Python's own; they are parameters.
\<close>

record python =
  fmt_0_3f :: "real \<Rightarrow> string"
  str_float :: "real \<Rightarrow> string"

fun write_spectrum ::
  "python \<Rightarrow> (real \<times> real) list \<Rightarrow> string list \<Rightarrow> string list" where
  "write_spectrum py [] file = file"
| "write_spectrum py ((wave, data) # rest) file =
     write_spectrum py rest (file @ [fmt_0_3f py wave @ '':'' @ str_float py data @ [CHR 0x0A]])"

text \<open>
  \<^verbatim>\<open>open(name, 'w')\<close> creates or truncates the file; failures of the operating system
  are outside the model.
\<close>

definition save_spectrum ::
  "python \<Rightarrow> string \<Rightarrow> real list \<Rightarrow> real list \<Rightarrow> 'd world \<Rightarrow> 'd world" where
  "save_spectrum py filename waves datas w =
     w\<lparr>files := (files w)(filename @ ''.txt'' \<mapsto> write_spectrum py (zip waves datas) [])\<rparr>"

definition get_spectrum ::
  "nat \<Rightarrow> python \<Rightarrow> 'd driver \<Rightarrow> spectrometer \<Rightarrow> string option \<Rightarrow> 'd world
     \<Rightarrow> (exn + (real list \<times> real list) option) option \<times> spectrometer \<times> 'd world" where
  "get_spectrum n py drv self filename w =
     (case get_status drv self w of
        (Inl e, self1, w1) \<Rightarrow> (Some (Inl e), self1, w1)
      | (Inr _, self1, w1) \<Rightarrow>
          if \<not> status_idle_soft_trig self1 then (Some (Inr None), self1, w1)
          else
            (case start_scan drv self1 w1 of
               (Inl e, self2, w2) \<Rightarrow> (Some (Inl e), self2, w2)
             | (Inr _, self2, w2) \<Rightarrow>
                 (case wait_for_scan n drv self2 w2 of
                    (None, self3, w3) \<Rightarrow> (None, self3, w3)
                  | (Some (Inl e), self3, w3) \<Rightarrow> (Some (Inl e), self3, w3)
                  | (Some (Inr _), self3, w3) \<Rightarrow>
                      (case get_scan_data drv self3 w3 of
                         (Inl e, self4, w4) \<Rightarrow> (Some (Inl e), self4, w4)
                       | (Inr _, self4, w4) \<Rightarrow>
                           (case scan_data self4 of
                              None \<Rightarrow> (Some (Inl AttributeError), self4, w4)
                            | Some data \<Rightarrow>
                                (Some (Inr (Some (wavelength_data self4, data))), self4,
                                 (case filename of
                                    None \<Rightarrow> w4
                                  | Some f \<Rightarrow>
                                      save_spectrum py f (wavelength_data self4) data w4)))))))"

subsection \<open>Plotting, closing, constructing\<close>

text \<open>
  \<^verbatim>\<open>plot_spectrum\<close> reads the integration time for the title from the module global
  \<^verbatim>\<open>spec\<close>, bound only when the file runs as a script: \<open>spec_global\<close> is that binding.
  The matplotlib calls are recorded in the trace.
\<close>

definition plot_spectrum ::
  "python \<Rightarrow> spectrometer option \<Rightarrow> spectrometer \<Rightarrow> real list option \<Rightarrow> real list option
     \<Rightarrow> bool \<Rightarrow> string option \<Rightarrow> 'd world \<Rightarrow> (exn + unit) \<times> spectrometer \<times> 'd world" where
  "plot_spectrum py spec_global self wavelength_data' scan_data' show filename w =
     (let waves = (case wavelength_data' of None \<Rightarrow> wavelength_data self | Some xs \<Rightarrow> xs)
      in case (case scan_data' of None \<Rightarrow> scan_data self | Some ys \<Rightarrow> Some ys) of
           None \<Rightarrow> (Inl AttributeError, self, w)
         | Some datas \<Rightarrow>
             (case spec_global of
                None \<Rightarrow> (Inl NameError, self, w)
              | Some spec \<Rightarrow>
                  (let title = ''Spectrum (integration_time_s = ''
                         @ fmt_0_3f py (integration_time_s spec) @ '')'';
                       w1 = w\<lparr>trace := trace w @ [Plot title waves datas]\<rparr>;
                       w2 = (if show then w1\<lparr>trace := trace w1 @ [Show]\<rparr> else w1);
                       w3 = (case filename of
                               None \<Rightarrow> w2
                             | Some f \<Rightarrow> w2\<lparr>trace := trace w2 @ [SaveFig f]\<rparr>)
                   in (Inr (), self, w3))))"

definition close ::
  "'d driver \<Rightarrow> spectrometer \<Rightarrow> 'd world \<Rightarrow> (exn + unit) \<times> spectrometer \<times> 'd world" where
  "close drv self w =
     (case dll_close drv (handle self) w of
        (r, w') \<Rightarrow>
          (case r of Inl e \<Rightarrow> (Inl e, self, w') | Inr _ \<Rightarrow> (Inr (), self, w')))"

text \<open>
  \<^verbatim>\<open>__init__\<close> assigns the attributes one method after the other. \<open>new_spectrometer\<close> is
  the object right after the handle is opened: the attributes not yet assigned hold
  placeholders, which no method reads before its own assignment, and a construction
  that raises returns no object.
\<close>

definition new_spectrometer :: "string \<Rightarrow> bool \<Rightarrow> bool \<Rightarrow> handle_t \<Rightarrow> spectrometer" where
  "new_spectrometer name' verbose' very_verbose' h =
     \<lparr>name = name', verbose = verbose', very_verbose = very_verbose', handle = h,
      device_info = [], wavelength_data = [], wavelength_min = 0, wavelength_max = 0,
      status = 0, status_idle_soft_trig = False, status_idle_ext_trig = False,
      status_scan_starting = False, status_scan_in_progress = False,
      status_scan_ready = False, integration_time_s = 0, scan_data = None\<rparr>"

definition Spectrometer ::
  "'d driver \<Rightarrow> string \<Rightarrow> string \<Rightarrow> bool \<Rightarrow> bool \<Rightarrow> bool \<Rightarrow> 'd world
     \<Rightarrow> (exn + spectrometer) \<times> 'd world" where
  "Spectrometer drv serial_number name' reset verbose' very_verbose' w =
     (case encode_ascii (''USB0::0x1313::0x8081::'' @ serial_number @ ''::RAW'') of
        Inl e \<Rightarrow> (Inl e, w)
      | Inr resourceName \<Rightarrow>
          (case dll_init drv resourceName True reset w of
             (Inl e, h, w1) \<Rightarrow> (Inl e, w1)
           | (Inr _, h, w1) \<Rightarrow>
               (case get_device_info drv (new_spectrometer name' verbose' very_verbose' h) w1 of
                  (Inl e, self2, w2) \<Rightarrow> (Inl e, w2)
                | (Inr _, self2, w2) \<Rightarrow>
                    (case get_wavelength_data drv self2 False w2 of
                       (Inl e, self3, w3) \<Rightarrow> (Inl e, w3)
                     | (Inr _, self3, w3) \<Rightarrow>
                         (case get_status drv self3 w3 of
                            (Inl e, self4, w4) \<Rightarrow> (Inl e, w4)
                          | (Inr _, self4, w4) \<Rightarrow>
                              (case get_integration_time drv self4 w4 of
                                 (Inl e, self5, w5) \<Rightarrow> (Inl e, w5)
                               | (Inr _, self5, w5) \<Rightarrow> (Inr self5, w5)))))))"

text \<open>
  The script at the end of the file (\<^verbatim>\<open>if __name__ == '__main__'\<close>), the only caller of
  \<^verbatim>\<open>close\<close>. It binds the module global \<^verbatim>\<open>spec\<close> to the object, so \<^verbatim>\<open>plot_spectrum\<close>
  finds it. An exception ends the script where it is raised. The fuel bounds each of
  the two polling loops.
\<close>

definition main_script ::
  "nat \<Rightarrow> python \<Rightarrow> 'd driver \<Rightarrow> 'd world \<Rightarrow> (exn + unit) option \<times> 'd world" where
  "main_script n py drv w =
     (case Spectrometer drv ''M00405433'' ''CCS100'' True True False w of
        (Inl e, w1) \<Rightarrow> (Some (Inl e), w1)
      | (Inr spec1, w1) \<Rightarrow>
     (case set_integration_time drv spec1 (PyFloat (1 / 10)) w1 of
        (Inl e, spec2, w2) \<Rightarrow> (Some (Inl e), w2)
      | (Inr _, spec2, w2) \<Rightarrow>
     (case get_spectrum n py drv spec2 None w2 of
        (None, spec3, w3) \<Rightarrow> (None, w3)
      | (Some (Inl e), spec3, w3) \<Rightarrow> (Some (Inl e), w3)
      | (Some (Inr _), spec3, w3) \<Rightarrow>
     (case plot_spectrum py (Some spec3) spec3 None None True None w3 of
        (Inl e, spec4, w4) \<Rightarrow> (Some (Inl e), w4)
      | (Inr _, spec4, w4) \<Rightarrow>
     (case get_spectrum n py drv spec4 (Some ''example'') w4 of
        (None, spec5, w5) \<Rightarrow> (None, w5)
      | (Some (Inl e), spec5, w5) \<Rightarrow> (Some (Inl e), w5)
      | (Some (Inr _), spec5, w5) \<Rightarrow>
     (case plot_spectrum py (Some spec5) spec5 None None False (Some ''example'') w5 of
        (Inl e, spec6, w6) \<Rightarrow> (Some (Inl e), w6)
      | (Inr _, spec6, w6) \<Rightarrow>
     (case close drv spec6 w6 of
        (Inl e, spec7, w7) \<Rightarrow> (Some (Inl e), w7)
      | (Inr _, spec7, w7) \<Rightarrow> (Some (Inr ()), w7))))))))"

text \<open>The trace events that read the wavelength table from the device.\<close>

fun is_wavelength_read :: "event \<Rightarrow> bool" where
  "is_wavelength_read (GetWavelengthData h dataSet) = True"
| "is_wavelength_read e = False"

text \<open>The trace events that close a handle.\<close>

fun is_close :: "event \<Rightarrow> bool" where
  "is_close (Close h) = True"
| "is_close e = False"

subsection \<open>Simulated devices\<close>

text \<open>
  Two instances of the driver, for running the adaptor on concrete inputs. The first
  has no state: every call returns the same status code, status word and integration
  time. The second answers the successive status queries from a list, then reports
  idle, and remembers the integration time it is given.
\<close>

definition fixed_driver :: "int \<Rightarrow> 32 word \<Rightarrow> real \<Rightarrow> unit driver" where
  "fixed_driver code st t =
     \<lparr>tlccs_init = (\<lambda>resourceName IDQuery resetDevice d. (code, 7, d)),
      tlccs_identificationQuery = (\<lambda>h d. (code, [], d)),
      tlccs_getWavelengthData = (\<lambda>h dataSet d. (code, ([], 0, 0), d)),
      tlccs_getDeviceStatus = (\<lambda>h d. (code, st, d)),
      tlccs_startScan = (\<lambda>h d. (code, d)),
      tlccs_getScanData = (\<lambda>h d. (code, [], d)),
      tlccs_getIntegrationTime = (\<lambda>h d. (code, t, d)),
      tlccs_setIntegrationTime = (\<lambda>h t' d. (code, d)),
      tlccs_close = (\<lambda>h d. (code, d))\<rparr>"

record sim =
  sim_status :: "32 word list"
  sim_time :: real

definition sim_driver :: "sim driver" where
  "sim_driver =
     \<lparr>tlccs_init = (\<lambda>resourceName IDQuery resetDevice d. (0, 7, d)),
      tlccs_identificationQuery =
        (\<lambda>h d. (0, [''Thorlabs'', ''CCS100'', ''M00405433'', ''1.2.0'', ''2.0.0''], d)),
      tlccs_getWavelengthData = (\<lambda>h dataSet d. (0, ([350, 351, 352], 350, 700), d)),
      tlccs_getDeviceStatus =
        (\<lambda>h d. case sim_status d of
                  [] \<Rightarrow> (0, 0x0002, d)
                | st # sts \<Rightarrow> (0, st, d\<lparr>sim_status := sts\<rparr>)),
      tlccs_startScan = (\<lambda>h d. (0, d)),
      tlccs_getScanData = (\<lambda>h d. (0, [10, 20, 30], d)),
      tlccs_getIntegrationTime = (\<lambda>h d. (0, sim_time d, d)),
      tlccs_setIntegrationTime = (\<lambda>h t d. (0, d\<lparr>sim_time := t\<rparr>)),
      tlccs_close = (\<lambda>h d. (0, d))\<rparr>"

definition sim_world :: "32 word list \<Rightarrow> real \<Rightarrow> sim world" where
  "sim_world sts t = \<lparr>dev = \<lparr>sim_status = sts, sim_time = t\<rparr>, trace = [], files = Map.empty\<rparr>"

definition unit_world :: "unit world" where
  "unit_world = \<lparr>dev = (), trace = [], files = Map.empty\<rparr>"

definition sim_spectrometer :: spectrometer where
  "sim_spectrometer =
     (new_spectrometer ''CCS100'' True False 7)
       \<lparr>wavelength_data := c_array 3648 [350, 351, 352], integration_time_s := 1 / 10\<rparr>"

definition sim_python :: python where
  "sim_python = \<lparr>fmt_0_3f = (\<lambda>x. ''w''), str_float = (\<lambda>x. ''d'')\<rparr>"

section \<open>Properties\<close>

subsection \<open>The status code of a driver call\<close>

lemma emit_sel:
  "dev (emit e d w) = d" "trace (emit e d w) = trace w @ [e]" "files (emit e d w) = files w"
  by (simp_all add: emit_def)

lemma check_error_zero: "check_error 0 = Inr 0"
  by (simp add: check_error_def)

lemma check_error_nonzero: "code \<noteq> 0 \<Longrightarrow> check_error code = Inl (UserWarning code)"
  by (simp add: check_error_def)

text \<open>
  C5. \<^verbatim>\<open>check_error\<close> raises \<^verbatim>\<open>UserWarning\<close> with the status code exactly when the code is
  not zero, and it returns a zero code unchanged. Each of the nine registered entry
  points hands the code of the library to \<^verbatim>\<open>check_error\<close>, whose outcome is the outcome
  of the call; the call adds that one library call to the trace and nothing else, so
  no error message is looked up.
\<close>

theorem check_error_raises_iff_nonzero:
  "(check_error code = Inl (UserWarning code)) = (code \<noteq> 0)
   \<and> (check_error code = Inr code) = (code = 0)
   \<and> ((\<exists>e. check_error code = Inl e) = (code \<noteq> 0))
   \<and> fst (dll_init drv rn idq rst w) = check_error (fst (tlccs_init drv rn idq rst (dev w)))
   \<and> fst (dll_get_device_info drv h w) = check_error (fst (tlccs_identificationQuery drv h (dev w)))
   \<and> fst (dll_get_wavelength_data drv h ds w)
       = check_error (fst (tlccs_getWavelengthData drv h ds (dev w)))
   \<and> fst (dll_get_status drv h w) = check_error (fst (tlccs_getDeviceStatus drv h (dev w)))
   \<and> fst (dll_start_scan drv h w) = check_error (fst (tlccs_startScan drv h (dev w)))
   \<and> fst (dll_get_scan_data drv h w) = check_error (fst (tlccs_getScanData drv h (dev w)))
   \<and> fst (dll_get_integration_time drv h w)
       = check_error (fst (tlccs_getIntegrationTime drv h (dev w)))
   \<and> fst (dll_set_integration_time drv h t w)
       = check_error (fst (tlccs_setIntegrationTime drv h t (dev w)))
   \<and> fst (dll_close drv h w) = check_error (fst (tlccs_close drv h (dev w)))
   \<and> trace (snd (dll_close drv h w)) = trace w @ [Close h]"
  by (simp add: check_error_def dll_init_def dll_get_device_info_def
      dll_get_wavelength_data_def dll_get_status_def dll_start_scan_def
      dll_get_scan_data_def dll_get_integration_time_def dll_set_integration_time_def
      dll_close_def emit_def case_prod_beta)

theorem check_error_raises_iff_nonzero_witness:
  "check_error 5 = Inl (UserWarning 5) \<and> check_error 0 = Inr 0
   \<and> fst (dll_close (fixed_driver 5 0 0) 7 unit_world) = Inl (UserWarning 5)"
  using check_error_raises_iff_nonzero
      [of 5 "fixed_driver 5 0 0" "[]" True True unit_world 7 False 0]
    check_error_raises_iff_nonzero
      [of 0 "fixed_driver 5 0 0" "[]" True True unit_world 7 False 0]
  by (simp add: fixed_driver_def unit_world_def)

subsection \<open>Decoding the status word\<close>

lemma sint_mask_bit:
  fixes st :: "32 word"
  assumes "n < 31"
  shows "(sint st AND 2 ^ n \<noteq> 0) = bit st n"
  using assms by (simp add: and_exp_eq_0_iff_not_bit bit_sint_iff)

lemma status_masks:
  fixes st :: "32 word"
  shows "(sint st AND 0x0002 \<noteq> 0) = bit st 1"
    and "(sint st AND 0x0080 \<noteq> 0) = bit st 7"
    and "(sint st AND 0x0008 \<noteq> 0) = bit st 3"
    and "(sint st AND 0x0004 \<noteq> 0) = bit st 2"
    and "(sint st AND 0x0010 \<noteq> 0) = bit st 4"
  using sint_mask_bit [of 1 st] sint_mask_bit [of 7 st] sint_mask_bit [of 3 st]
    sint_mask_bit [of 2 st] sint_mask_bit [of 4 st]
  by simp_all

lemma get_status_ok:
  assumes "tlccs_getDeviceStatus drv (handle self) (dev w) = (0, st, d)"
  shows "get_status drv self w =
           (Inr st,
            self\<lparr>status := st,
              status_idle_soft_trig := bit st 1,
              status_idle_ext_trig := bit st 7,
              status_scan_starting := bit st 3,
              status_scan_in_progress := bit st 2,
              status_scan_ready := bit st 4\<rparr>,
            emit (GetDeviceStatus (handle self)) d w)"
  using assms
  by (simp add: get_status_def dll_get_status_def check_error_def status_masks)

lemma get_status_error:
  assumes "tlccs_getDeviceStatus drv (handle self) (dev w) = (code, st, d)" and "code \<noteq> 0"
  shows "get_status drv self w =
           (Inl (UserWarning code), self\<lparr>status := st\<rparr>, emit (GetDeviceStatus (handle self)) d w)"
  using assms by (simp add: get_status_def dll_get_status_def check_error_def)

text \<open>
  C2. When the status query succeeds with the word \<open>st\<close>, \<^verbatim>\<open>_get_status\<close> stores \<open>st\<close> and
  sets \<^verbatim>\<open>status_idle_soft_trig\<close> to bit 1 of \<open>st\<close> (mask 0x0002), \<^verbatim>\<open>status_idle_ext_trig\<close>
  to bit 7 (0x0080), \<^verbatim>\<open>status_scan_starting\<close> to bit 3 (0x0008),
  \<^verbatim>\<open>status_scan_in_progress\<close> to bit 2 (0x0004) and \<^verbatim>\<open>status_scan_ready\<close> to bit 4
  (0x0010). For the word 0x0010 only \<^verbatim>\<open>status_scan_ready\<close> is true, for 0x0002 only
  \<^verbatim>\<open>status_idle_soft_trig\<close>.
\<close>

theorem get_status_decodes_bits:
  assumes "tlccs_getDeviceStatus drv (handle self) (dev w) = (0, st, d)"
    and "get_status drv self w = (r, self', w')"
  shows "r = Inr st \<and> status self' = st
         \<and> status_idle_soft_trig self' = bit st 1
         \<and> status_idle_soft_trig self' = (st AND 0x0002 \<noteq> 0)
         \<and> status_idle_ext_trig self' = bit st 7
         \<and> status_idle_ext_trig self' = (st AND 0x0080 \<noteq> 0)
         \<and> status_scan_starting self' = bit st 3
         \<and> status_scan_starting self' = (st AND 0x0008 \<noteq> 0)
         \<and> status_scan_in_progress self' = bit st 2
         \<and> status_scan_in_progress self' = (st AND 0x0004 \<noteq> 0)
         \<and> status_scan_ready self' = bit st 4
         \<and> status_scan_ready self' = (st AND 0x0010 \<noteq> 0)
         \<and> (st = 0x0010 \<longrightarrow>
               status_scan_ready self' \<and> \<not> status_idle_soft_trig self'
               \<and> \<not> status_idle_ext_trig self' \<and> \<not> status_scan_starting self'
               \<and> \<not> status_scan_in_progress self')
         \<and> (st = 0x0002 \<longrightarrow>
               status_idle_soft_trig self' \<and> \<not> status_idle_ext_trig self'
               \<and> \<not> status_scan_starting self' \<and> \<not> status_scan_in_progress self'
               \<and> \<not> status_scan_ready self')"
proof -
  have masks: "(st AND 0x0002 \<noteq> 0) = bit st 1" "(st AND 0x0080 \<noteq> 0) = bit st 7"
    "(st AND 0x0008 \<noteq> 0) = bit st 3" "(st AND 0x0004 \<noteq> 0) = bit st 2"
    "(st AND 0x0010 \<noteq> 0) = bit st 4"
    using and_exp_eq_0_iff_not_bit [of st 1] and_exp_eq_0_iff_not_bit [of st 7]
      and_exp_eq_0_iff_not_bit [of st 3] and_exp_eq_0_iff_not_bit [of st 2]
      and_exp_eq_0_iff_not_bit [of st 4]
    by simp_all
  from assms(2) show ?thesis
    unfolding get_status_ok [OF assms(1)] masks by auto
qed

theorem get_status_decodes_bits_witness:
  "status_scan_ready (fst (snd (get_status (fixed_driver 0 0x0010 0)
       (new_spectrometer ''CCS100'' True True 7) unit_world)))
   \<and> \<not> status_idle_soft_trig (fst (snd (get_status (fixed_driver 0 0x0010 0)
       (new_spectrometer ''CCS100'' True True 7) unit_world)))
   \<and> status_idle_soft_trig (fst (snd (get_status (fixed_driver 0 0x0002 0)
       (new_spectrometer ''CCS100'' True True 7) unit_world)))
   \<and> \<not> status_scan_ready (fst (snd (get_status (fixed_driver 0 0x0002 0)
       (new_spectrometer ''CCS100'' True True 7) unit_world)))"
proof -
  let ?s = "new_spectrometer ''CCS100'' True True 7"
  let ?ready = "get_status (fixed_driver 0 0x0010 0) ?s unit_world"
  let ?idle = "get_status (fixed_driver 0 0x0002 0) ?s unit_world"
  have a: "tlccs_getDeviceStatus (fixed_driver 0 0x0010 0) (handle ?s) (dev unit_world)
             = (0, 0x0010, ())"
    and b: "tlccs_getDeviceStatus (fixed_driver 0 0x0002 0) (handle ?s) (dev unit_world)
             = (0, 0x0002, ())"
    by (simp_all add: fixed_driver_def)
  have c: "?ready = (fst ?ready, fst (snd ?ready), snd (snd ?ready))"
    and d: "?idle = (fst ?idle, fst (snd ?idle), snd (snd ?idle))"
    by simp_all
  show ?thesis
    using get_status_decodes_bits [OF a c] get_status_decodes_bits [OF b d] by simp
qed

subsection \<open>Setting the integration time\<close>

lemma get_integration_time_eq:
  "get_integration_time drv self w =
     (let c = fst (tlccs_getIntegrationTime drv (handle self) (dev w));
          t = fst (snd (tlccs_getIntegrationTime drv (handle self) (dev w)));
          d = snd (snd (tlccs_getIntegrationTime drv (handle self) (dev w)));
          w' = emit (GetIntegrationTime (handle self)) d w
      in if c \<noteq> 0 then (Inl (UserWarning c), self, w')
         else (Inr t, self\<lparr>integration_time_s := t\<rparr>, w'))"
  by (simp add: get_integration_time_def dll_get_integration_time_def check_error_def
      case_prod_beta Let_def)

lemma binade_unfold:
  "binade n x =
     (if n = 0 then 0
      else if 2 \<le> x then binade (n - 1) (x / 2) + 1
      else if x < 1 then binade (n - 1) (2 * x) - 1
      else 0)"
  by (cases n) simp_all

lemma tol_s_value: "tol_s = 5764607523034235 / 576460752303423488"
  by (simp add: tol_s_def round_double_def binade_unfold pow2_def round_even_def Let_def)

lemma round_even_error: "\<bar>of_int (round_even x) - x\<bar> \<le> 1 / 2"
proof -
  have "of_int \<lfloor>x\<rfloor> \<le> x" "x < of_int \<lfloor>x\<rfloor> + 1"
    by linarith+
  then show ?thesis
    by (auto simp add: round_even_def Let_def)
qed

lemma binade_le:
  "0 < x \<Longrightarrow> x < 2 ^ k \<Longrightarrow> 1 \<le> k \<Longrightarrow> binade n x \<le> int k - 1"
proof (induction n arbitrary: x k)
  case 0
  then show ?case by simp
next
  case (Suc n)
  show ?case
  proof (cases "2 \<le> x")
    case True
    with Suc.prems have "k \<noteq> 1" by auto
    with Suc.prems obtain j where j: "k = Suc j" "1 \<le> j"
      by (cases k) auto
    with Suc.prems have "x / 2 < 2 ^ j" by simp
    from Suc.IH [OF _ this j(2)] Suc.prems True j show ?thesis by simp
  next
    case False
    show ?thesis
    proof (cases "x < 1")
      case True
      with Suc.prems have "0 < 2 * x" "2 * x < 2 ^ 1" by simp_all
      from Suc.IH [OF this] Suc.prems True False show ?thesis by simp
    next
      case ge: False
      with False Suc.prems show ?thesis by simp
    qed
  qed
qed

lemma pow2_powi: "pow2 k = 2 powi k"
  by (simp add: pow2_def power_int_def inverse_eq_divide power_one_over)

lemma pow2_pos: "0 < pow2 k"
  by (simp add: pow2_powi)

lemma pow2_mono: "k \<le> l \<Longrightarrow> pow2 k \<le> pow2 l"
  by (simp add: pow2_powi power_int_increasing)

lemma round_double_error:
  assumes "\<bar>x\<bar> < 64"
  shows "\<bar>round_double x - x\<bar> \<le> 1 / 2 ^ 48"
proof (cases "x = 0")
  case True
  then show ?thesis by (simp add: round_double_def)
next
  case False
  define e where "e = max (- 1022) (binade 1075 \<bar>x\<bar>)"
  define q where "q = pow2 (e - 52)"
  define r where "r = round_even (\<bar>x\<bar> / q)"
  have rd: "round_double x = sgn x * of_int r * q"
    using False by (simp add: round_double_def Let_def e_def q_def r_def)
  have "binade 1075 \<bar>x\<bar> \<le> int 6 - 1"
    using False assms by (intro binade_le) simp_all
  then have "e \<le> 5" by (simp add: e_def)
  then have "q \<le> pow2 (- 47)" unfolding q_def by (intro pow2_mono) simp
  then have q47: "q \<le> 1 / 2 ^ 47" by (simp add: pow2_def)
  have q0: "0 < q" by (simp add: q_def pow2_pos)
  have "\<bar>of_int r - \<bar>x\<bar> / q\<bar> \<le> 1 / 2"
    unfolding r_def by (rule round_even_error)
  then have "\<bar>of_int r - \<bar>x\<bar> / q\<bar> * q \<le> 1 / 2 * q"
    using q0 by (intro mult_right_mono) simp_all
  moreover have "(of_int r - \<bar>x\<bar> / q) * q = of_int r * q - \<bar>x\<bar>"
    using q0 by (simp add: field_simps)
  then have "\<bar>of_int r * q - \<bar>x\<bar>\<bar> = \<bar>(of_int r - \<bar>x\<bar> / q) * q\<bar>"
    by (simp only:)
  then have "\<bar>of_int r - \<bar>x\<bar> / q\<bar> * q = \<bar>of_int r * q - \<bar>x\<bar>\<bar>"
    using q0 by (simp add: abs_mult)
  ultimately have "\<bar>of_int r * q - \<bar>x\<bar>\<bar> \<le> q / 2" by simp
  with q47 have b: "\<bar>of_int r * q - \<bar>x\<bar>\<bar> \<le> 1 / 2 ^ 48" by simp
  have "round_double x - x = sgn x * (of_int r * q - \<bar>x\<bar>)"
    unfolding rd using mult_sgn_abs [of x] by (simp add: algebra_simps)
  then have "\<bar>round_double x - x\<bar> = \<bar>of_int r * q - \<bar>x\<bar>\<bar>"
    using False by (simp add: abs_mult abs_sgn_eq)
  with b show ?thesis by simp
qed

text \<open>
  The lower bound of the range test is the literal \<^verbatim>\<open>1e-5\<close>, the double nearest to
  \<open>1 / 100000\<close>, which lies above it. No double and no \<^verbatim>\<open>int\<close> lies between the two,
  so for the values an argument can have the test against the literal is the test
  against \<open>1 / 100000\<close>, as \<open>set_integration_time\<close> has it. A double is a real that
  \<open>round_double\<close> leaves as it is.
\<close>

lemma double_1e_5: "round_double (1 / 100000) = 5902958103587057 / 590295810358705651712"
  by (simp add: round_double_def binade_unfold pow2_def round_even_def Let_def)

lemma no_double_below_1e_5:
  assumes "1 / 100000 \<le> t" and "t < 5902958103587057 / 590295810358705651712"
  shows "round_double t = 5902958103587057 / 590295810358705651712"
proof -
  have b: "binade 1075 t = - 17"
    using assms by (simp add: binade_unfold)
  have t0: "t \<noteq> 0" "sgn t = 1" "\<bar>t\<bar> = t" using assms by simp_all
  have fl: "\<lfloor>t * 590295810358705651712\<rfloor> = 5902958103587056"
    using assms by (intro floor_unique) simp_all
  have "round_even (t * 590295810358705651712) = 5902958103587057"
    using assms by (simp add: round_even_def Let_def fl)
  then show ?thesis
    using t0 by (simp add: round_double_def b pow2_def Let_def)
qed

lemma range_literal:
  assumes "round_double t = t"
  shows "(round_double (1 / 100000) \<le> t) = (1 / 100000 \<le> t)"
proof (cases "t < 5902958103587057 / 590295810358705651712")
  case True
  with no_double_below_1e_5 [of t] assms have "\<not> 1 / 100000 \<le> t"
    by auto
  with True show ?thesis by (simp add: double_1e_5)
next
  case False
  then have "5902958103587057 / 590295810358705651712 \<le> t" by simp
  moreover have "(1 :: real) / 100000 \<le> 5902958103587057 / 590295810358705651712"
    by simp
  ultimately show ?thesis
    unfolding double_1e_5 by linarith
qed

lemma range_literal_int:
  "(round_double (1 / 100000) \<le> of_int i) = (1 / 100000 \<le> (of_int i :: real))"
proof (cases "1 \<le> i")
  case True
  then have "(1 :: real) \<le> of_int i" by simp
  then show ?thesis by (simp add: double_1e_5)
next
  case False
  then have "(of_int i :: real) \<le> 0" by simp
  then show ?thesis by (simp add: double_1e_5)
qed

lemma tol_s_near: "\<bar>tol_s - 1 / 100\<bar> \<le> 1 / 2 ^ 48"
  by (simp add: tol_s_value)

lemma float_tol_bounds:
  assumes "\<bar>t\<bar> \<le> 60"
  shows "\<bar>float_add t tol_s - (t + 1 / 100)\<bar> \<le> 1 / 2 ^ 47"
    and "\<bar>float_sub t tol_s - (t - 1 / 100)\<bar> \<le> 1 / 2 ^ 47"
proof -
  define eps :: real where "eps = 1 / 2 ^ 48"
  have two: "1 / 2 ^ 47 = 2 * eps" by (simp add: eps_def)
  have tol: "\<bar>tol_s\<bar> < 1" by (simp add: tol_s_value)
  with assms have "\<bar>t + tol_s\<bar> < 64" "\<bar>t - tol_s\<bar> < 64" by linarith+
  from round_double_error [OF this(1)] round_double_error [OF this(2)] tol_s_near
  have "\<bar>round_double (t + tol_s) - (t + tol_s)\<bar> \<le> eps"
    "\<bar>round_double (t - tol_s) - (t - tol_s)\<bar> \<le> eps" "\<bar>tol_s - 1 / 100\<bar> \<le> eps"
    unfolding eps_def by blast+
  then show "\<bar>float_add t tol_s - (t + 1 / 100)\<bar> \<le> 1 / 2 ^ 47"
    and "\<bar>float_sub t tol_s - (t - 1 / 100)\<bar> \<le> 1 / 2 ^ 47"
    unfolding float_add_def float_sub_def two by linarith+
qed

lemma tol_test_true:
  assumes "\<bar>t\<bar> \<le> 60" and "\<bar>a - t\<bar> \<le> 1 / 100 - 1 / 2 ^ 47"
  shows "within_tolerance t a"
  unfolding within_tolerance_def
  using float_tol_bounds [OF assms(1)] assms(2) by linarith

lemma tol_test_false:
  assumes "\<bar>t\<bar> \<le> 60" and "1 / 100 + 1 / 2 ^ 47 < \<bar>a - t\<bar>"
  shows "\<not> within_tolerance t a"
  unfolding within_tolerance_def
  using float_tol_bounds [OF assms(1)] assms(2) by linarith

lemma tol_test_near:
  assumes "\<bar>t\<bar> \<le> 60" and "within_tolerance t a"
  shows "\<bar>a - t\<bar> \<le> 1 / 100 + 1 / 2 ^ 47"
  using float_tol_bounds [OF assms(1)] assms(2) unfolding within_tolerance_def by linarith

lemma tol_checks:
  "(if \<not> a \<le> float_add t tol_s then x else if \<not> a \<ge> float_sub t tol_s then x else y)
     = (if within_tolerance t a then y else x)"
  by (simp add: within_tolerance_def)

lemma set_integration_time_eq:
  "set_integration_time drv self v w =
     (case num_value v of
        None \<Rightarrow> (Inl AssertionError, self, w)
      | Some t \<Rightarrow>
          if \<not> (1 / 100000 \<le> t \<and> t \<le> 60) then (Inl AssertionError, self, w)
          else
            (let h = handle self;
                 c1 = fst (tlccs_setIntegrationTime drv h t (dev w));
                 d1 = snd (tlccs_setIntegrationTime drv h t (dev w));
                 w1 = emit (SetIntegrationTime h t) d1 w;
                 c2 = fst (tlccs_getIntegrationTime drv h d1);
                 t2 = fst (snd (tlccs_getIntegrationTime drv h d1));
                 d2 = snd (snd (tlccs_getIntegrationTime drv h d1));
                 w2 = emit (GetIntegrationTime h) d2 w1
             in if c1 \<noteq> 0 then (Inl (UserWarning c1), self, w1)
                else if c2 \<noteq> 0 then (Inl (UserWarning c2), self, w2)
                else if within_tolerance t t2
                then (Inr (), self\<lparr>integration_time_s := t2\<rparr>, w2)
                else (Inl AssertionError, self\<lparr>integration_time_s := t2\<rparr>, w2)))"
  by (simp add: set_integration_time_def get_integration_time_eq
      dll_set_integration_time_def check_error_def tol_checks emit_sel
      case_prod_beta Let_def split: option.split)

text \<open>
  C1. The claim bounds the distance of the stored read-back value from the requested
  one by 0.01 over the reals; the code tests the read-back value against the requested
  value plus and minus \<^verbatim>\<open>1e-2\<close> computed in doubles, and the two differ by a rounding
  error. What holds: for an argument that is an \<^verbatim>\<open>int\<close> or a \<^verbatim>\<open>float\<close> with a value \<open>t\<close>
  in \<open>[1e-5, 60]\<close>, \<^verbatim>\<open>set_integration_time\<close> passes \<open>t\<close> to the driver as its first
  external call; unless a driver call reports an error, \<^verbatim>\<open>integration_time_s\<close> then
  holds the value read back from the driver, and the method returns when that value
  lies between the double difference and the double sum of \<open>t\<close> and \<^verbatim>\<open>1e-2\<close>, and raises
  \<^verbatim>\<open>AssertionError\<close> when it does not; a value the method returns on is within
  \<open>0.01 + 2 ^ (- 47)\<close> of \<open>t\<close>. For any other argument it raises \<^verbatim>\<open>AssertionError\<close> with
  the object and the world untouched: no driver call is made.
\<close>

theorem set_integration_time_range_and_tolerance:
  assumes "set_integration_time drv self v w = (r, self', w')"
  shows "(\<forall>t. num_value v = Some t \<and> 1 / 100000 \<le> t \<and> t \<le> 60 \<longrightarrow>
            (\<exists>es. trace w' = trace w @ SetIntegrationTime (handle self) t # es)
            \<and> (r = Inr () \<longrightarrow>
                  float_sub t tol_s \<le> integration_time_s self'
                  \<and> integration_time_s self' \<le> float_add t tol_s
                  \<and> \<bar>integration_time_s self' - t\<bar> \<le> 1 / 100 + 1 / 2 ^ 47)
            \<and> ((\<forall>c. r \<noteq> Inl (UserWarning c)) \<longrightarrow>
                  integration_time_s self'
                    = fst (snd (tlccs_getIntegrationTime drv (handle self)
                        (snd (tlccs_setIntegrationTime drv (handle self) t (dev w)))))
                  \<and> r = (if float_sub t tol_s \<le> integration_time_s self'
                            \<and> integration_time_s self' \<le> float_add t tol_s
                         then Inr () else Inl AssertionError)))
         \<and> (\<not> (\<exists>t. num_value v = Some t \<and> 1 / 100000 \<le> t \<and> t \<le> 60) \<longrightarrow>
              r = Inl AssertionError \<and> self' = self \<and> w' = w)"
proof (cases "num_value v")
  case None
  with assms show ?thesis by (simp add: set_integration_time_eq)
next
  case (Some t)
  show ?thesis
  proof (cases "1 / 100000 \<le> t \<and> t \<le> 60")
    case False
    with Some assms show ?thesis by (auto simp add: set_integration_time_eq)
  next
    case True
    then have "\<bar>t\<bar> \<le> 60" by simp
    note near = tol_test_near [OF this]
    from True Some assms show ?thesis
      by (auto simp add: set_integration_time_eq Let_def emit_sel within_tolerance_def
          dest: near [unfolded within_tolerance_def, OF conjI] split: if_splits)
  qed
qed

theorem set_integration_time_range_and_tolerance_witness:
  "fst (set_integration_time sim_driver (new_spectrometer ''CCS100'' True True 7)
          (PyFloat (1 / 10)) (sim_world [] 1)) = Inr ()
   \<and> \<bar>integration_time_s (fst (snd (set_integration_time sim_driver
          (new_spectrometer ''CCS100'' True True 7) (PyFloat (1 / 10)) (sim_world [] 1)))) - 1 / 10\<bar>
       \<le> 1 / 100 + 1 / 2 ^ 47
   \<and> trace (snd (snd (set_integration_time sim_driver
          (new_spectrometer ''CCS100'' True True 7) (PyFloat (1 / 10)) (sim_world [] 1))))
       = [SetIntegrationTime 7 (1 / 10), GetIntegrationTime 7]
   \<and> set_integration_time sim_driver (new_spectrometer ''CCS100'' True True 7)
          (PyInt 61) (sim_world [] 1)
       = (Inl AssertionError, new_spectrometer ''CCS100'' True True 7, sim_world [] 1)
   \<and> set_integration_time sim_driver (new_spectrometer ''CCS100'' True True 7)
          (PyStr ''0.1'') (sim_world [] 1)
       = (Inl AssertionError, new_spectrometer ''CCS100'' True True 7, sim_world [] 1)"
proof -
  let ?s = "new_spectrometer ''CCS100'' True True 7"
  let ?w = "sim_world [] 1"
  let ?a = "set_integration_time sim_driver ?s (PyFloat (1 / 10)) ?w"
  let ?b = "set_integration_time sim_driver ?s (PyInt 61) ?w"
  let ?c = "set_integration_time sim_driver ?s (PyStr ''0.1'') ?w"
  have a: "?a = (fst ?a, fst (snd ?a), snd (snd ?a))"
    and b: "?b = (fst ?b, fst (snd ?b), snd (snd ?b))"
    and c: "?c = (fst ?c, fst (snd ?c), snd (snd ?c))"
    by simp_all
  have tol: "within_tolerance (1 / 10) (1 / 10)"
    by (rule tol_test_true) simp_all
  have run: "?a = (Inr (), ?s\<lparr>integration_time_s := 1 / 10\<rparr>,
      \<lparr>dev = \<lparr>sim_status = [], sim_time = 1 / 10\<rparr>,
       trace = [SetIntegrationTime 7 (1 / 10), GetIntegrationTime 7], files = Map.empty\<rparr>)"
    by (simp add: set_integration_time_eq sim_driver_def sim_world_def new_spectrometer_def
        emit_def Let_def tol)
  show ?thesis
    using set_integration_time_range_and_tolerance [OF a]
      set_integration_time_range_and_tolerance [OF b]
      set_integration_time_range_and_tolerance [OF c]
    by (simp add: run prod_eq_iff)
qed

text \<open>
  The claim as it is written fails at the request 0.5 when the driver reads back the
  double nearest to 0.51, \<open>2296835809958953 / 2 ^ 52\<close>: the double sum of 0.5 and
  \<^verbatim>\<open>1e-2\<close> is that double, both assertions pass and the method returns, while the
  read-back value is farther than 0.01 from 0.5.
\<close>

lemma float_add_half: "float_add (1 / 2) tol_s = 2296835809958953 / 4503599627370496"
  by (simp add: tol_s_value float_add_def round_double_def binade_unfold pow2_def
      round_even_def Let_def)

lemma within_tolerance_half:
  "within_tolerance (1 / 2) (2296835809958953 / 4503599627370496)"
proof -
  have "\<bar>float_sub (1 / 2) tol_s - (1 / 2 - 1 / 100)\<bar> \<le> 1 / 2 ^ 47"
    by (rule float_tol_bounds) simp
  moreover have "(1 :: real) / 2 ^ 47 \<le> 1 / 100" by simp
  ultimately have "float_sub (1 / 2) tol_s \<le> 2296835809958953 / 4503599627370496"
    by linarith
  then show ?thesis
    by (simp add: within_tolerance_def float_add_half)
qed

theorem set_integration_time_tolerance_counterexample:
  "1 / 100000 \<le> (1 / 2 :: real) \<and> (1 / 2 :: real) \<le> 60
   \<and> fst (set_integration_time (fixed_driver 0 0 (2296835809958953 / 4503599627370496))
            sim_spectrometer (PyFloat (1 / 2)) unit_world) = Inr ()
   \<and> integration_time_s (fst (snd (set_integration_time
            (fixed_driver 0 0 (2296835809958953 / 4503599627370496))
            sim_spectrometer (PyFloat (1 / 2)) unit_world)))
       = 2296835809958953 / 4503599627370496
   \<and> \<not> \<bar>integration_time_s (fst (snd (set_integration_time
            (fixed_driver 0 0 (2296835809958953 / 4503599627370496))
            sim_spectrometer (PyFloat (1 / 2)) unit_world))) - 1 / 2\<bar> \<le> 1 / 100"
proof -
  have run: "set_integration_time (fixed_driver 0 0 (2296835809958953 / 4503599627370496))
            sim_spectrometer (PyFloat (1 / 2)) unit_world
     = (Inr (),
        sim_spectrometer\<lparr>integration_time_s := 2296835809958953 / 4503599627370496\<rparr>,
        \<lparr>dev = (), trace = [SetIntegrationTime 7 (1 / 2), GetIntegrationTime 7],
         files = Map.empty\<rparr>)"
    by (simp add: set_integration_time_eq within_tolerance_half fixed_driver_def
        unit_world_def sim_spectrometer_def new_spectrometer_def emit_def Let_def)
  show ?thesis
    unfolding run by simp
qed

subsection \<open>The polling loop\<close>

lemma get_status_eq:
  "get_status drv self w =
     (let c = fst (tlccs_getDeviceStatus drv (handle self) (dev w));
          st = fst (snd (tlccs_getDeviceStatus drv (handle self) (dev w)));
          d = snd (snd (tlccs_getDeviceStatus drv (handle self) (dev w)));
          w' = emit (GetDeviceStatus (handle self)) d w
      in if c \<noteq> 0 then (Inl (UserWarning c), self\<lparr>status := st\<rparr>, w')
         else (Inr st,
               self\<lparr>status := st,
                 status_idle_soft_trig := bit st 1,
                 status_idle_ext_trig := bit st 7,
                 status_scan_starting := bit st 3,
                 status_scan_in_progress := bit st 2,
                 status_scan_ready := bit st 4\<rparr>,
               w'))"
  by (simp add: get_status_def dll_get_status_def check_error_def status_masks
      case_prod_beta Let_def)

lemma get_status_frame:
  assumes "get_status drv self w = (r, self', w')"
  shows "handle self' = handle self" "integration_time_s self' = integration_time_s self"
    "wavelength_data self' = wavelength_data self" "scan_data self' = scan_data self"
    "trace w' = trace w @ [GetDeviceStatus (handle self)]" "files w' = files w"
    "dev w' = snd (snd (tlccs_getDeviceStatus drv (handle self) (dev w)))"
  using assms by (auto simp add: get_status_eq Let_def emit_sel split: if_splits)

lemma get_status_ready:
  assumes "get_status drv self w = (Inr x, self', w')"
  shows "status_scan_ready self' = bit (status self') 4"
    and "status_idle_soft_trig self' = bit (status self') 1"
    and "status self' = fst (snd (tlccs_getDeviceStatus drv (handle self) (dev w)))"
    and "fst (tlccs_getDeviceStatus drv (handle self) (dev w)) = 0"
  using assms by (auto simp add: get_status_eq Let_def split: if_splits)

lemma time_sleep_cases:
  "time_sleep secs w = (r, w') \<Longrightarrow>
     (secs < 0 \<and> r = Inl ValueError \<and> w' = w)
     \<or> (0 \<le> secs \<and> r = Inr () \<and> w' = w\<lparr>trace := trace w @ [Sleep secs]\<rparr>)"
  by (auto simp add: time_sleep_def split: if_splits)

lemma wait_for_scan_ready [simp]:
  "status_scan_ready self \<Longrightarrow> wait_for_scan n drv self w = (Some (Inr ()), self, w)"
  by (simp add: wait_for_scan.simps)

lemma wait_for_scan_0 [simp]:
  "\<not> status_scan_ready self \<Longrightarrow> wait_for_scan 0 drv self w = (None, self, w)"
  by (simp add: wait_for_scan.simps)

lemma wait_for_scan_Suc:
  "\<not> status_scan_ready self \<Longrightarrow>
   wait_for_scan (Suc m) drv self w =
     (case time_sleep (integration_time_s self / 10) w of
        (Inl e, w1) \<Rightarrow> (Some (Inl e), self, w1)
      | (Inr _, w1) \<Rightarrow>
          (case get_status drv self w1 of
             (Inl e, self2, w2) \<Rightarrow> (Some (Inl e), self2, w2)
           | (Inr _, self2, w2) \<Rightarrow> wait_for_scan m drv self2 w2))"
  by (subst wait_for_scan.simps) simp

lemma wait_for_scan_run:
  assumes "wait_for_scan n drv self w = (r, self', w')"
  shows "handle self' = handle self \<and> integration_time_s self' = integration_time_s self
         \<and> wavelength_data self' = wavelength_data self \<and> scan_data self' = scan_data self
         \<and> files w' = files w
         \<and> (\<exists>k\<le>n. trace w' = trace w @ concat (replicate k (poll self))
                \<and> (r = None \<longrightarrow> k = n))
         \<and> (r = Some (Inr ()) \<longrightarrow> status_scan_ready self')
         \<and> (r = None \<longrightarrow> \<not> status_scan_ready self')"
  using assms
proof (induction n arbitrary: self w)
  case 0
  then show ?case by (cases "status_scan_ready self") auto
next
  case (Suc m)
  show ?case
  proof (cases "status_scan_ready self")
    case True
    with Suc.prems show ?thesis by auto
  next
    case False
    obtain r1 w1 where sl: "time_sleep (integration_time_s self / 10) w = (r1, w1)"
      by (cases "time_sleep (integration_time_s self / 10) w")
    show ?thesis
    proof (cases r1)
      case (Inl e)
      with Suc.prems False sl have "r = Some (Inl e)" "self' = self" "w' = w1"
        by (simp_all add: wait_for_scan_Suc)
      moreover from time_sleep_cases [OF sl] Inl have "w1 = w" by auto
      ultimately show ?thesis by (auto intro: exI [of _ 0])
    next
      case (Inr u)
      with time_sleep_cases [OF sl]
      have w1: "w1 = w\<lparr>trace := trace w @ [Sleep (integration_time_s self / 10)]\<rparr>"
        by auto
      obtain r2 self2 w2 where gs: "get_status drv self w1 = (r2, self2, w2)"
        by (cases "get_status drv self w1")
      note fr = get_status_frame [OF gs]
      have tr2: "trace w2 = trace w @ poll self"
        using fr(5) w1 by (simp add: poll_def)
      have fl2: "files w2 = files w"
        using fr(6) w1 by simp
      show ?thesis
      proof (cases r2)
        case (Inl e)
        with Suc.prems False sl Inr gs have "r = Some (Inl e)" "self' = self2" "w' = w2"
          by (simp_all add: wait_for_scan_Suc)
        with fr tr2 fl2 show ?thesis
          by (auto intro!: exI [of _ 1])
      next
        case (Inr st)
        with Suc.prems False sl \<open>r1 = Inr u\<close> gs
        have rec: "wait_for_scan m drv self2 w2 = (r, self', w')"
          by (simp add: wait_for_scan_Suc)
        from Suc.IH [OF rec] obtain k where k: "k \<le> m"
          "trace w' = trace w2 @ concat (replicate k (poll self2))" "r = None \<longrightarrow> k = m"
          by auto
        have ps: "poll self2 = poll self"
          using fr by (simp add: poll_def)
        have "trace w' = trace w @ concat (replicate (Suc k) (poll self))"
          using k(2) tr2 ps by simp
        moreover have "Suc k \<le> Suc m" "r = None \<longrightarrow> Suc k = Suc m"
          using k by auto
        ultimately have "\<exists>k\<le>Suc m. trace w' = trace w @ concat (replicate k (poll self))
                \<and> (r = None \<longrightarrow> k = Suc m)"
          by blast
        with Suc.IH [OF rec] fr fl2 show ?thesis by simp
      qed
    qed
  qed
qed


lemma wait_for_scan_never_ready:
  assumes "\<forall>h d. \<not> bit (fst (snd (tlccs_getDeviceStatus drv h d))) 4"
    and "\<not> status_scan_ready self"
  shows "fst (wait_for_scan n drv self w) \<noteq> Some (Inr ())"
  using assms(2)
proof (induction n arbitrary: self w)
  case 0
  then show ?case by simp
next
  case (Suc m)
  obtain r1 w1 where sl: "time_sleep (integration_time_s self / 10) w = (r1, w1)"
    by (cases "time_sleep (integration_time_s self / 10) w")
  obtain r2 self2 w2 where gs: "get_status drv self w1 = (r2, self2, w2)"
    by (cases "get_status drv self w1")
  show ?case
  proof (cases r1)
    case (Inl e)
    with Suc.prems sl show ?thesis by (simp add: wait_for_scan_Suc)
  next
    case u: (Inr u)
    show ?thesis
    proof (cases r2)
      case (Inl e)
      with Suc.prems sl u gs show ?thesis by (simp add: wait_for_scan_Suc)
    next
      case (Inr st)
      with gs get_status_ready [of drv self w1 st self2 w2] assms(1)
      have "\<not> status_scan_ready self2" by simp
      from Suc.IH [OF this] Suc.prems sl u gs Inr show ?thesis
        by (simp add: wait_for_scan_Suc)
    qed
  qed
qed


lemma wait_for_scan_fuel:
  assumes "wait_for_scan n drv self w = (Some x, self', w')"
  shows "wait_for_scan (n + m) drv self w = (Some x, self', w')"
  using assms
proof (induction n arbitrary: self w)
  case 0
  then show ?case by (cases "status_scan_ready self") auto
next
  case (Suc k)
  show ?case
  proof (cases "status_scan_ready self")
    case True
    with Suc.prems show ?thesis by simp
  next
    case False
    obtain r1 w1 where sl: "time_sleep (integration_time_s self / 10) w = (r1, w1)"
      by (cases "time_sleep (integration_time_s self / 10) w")
    obtain r2 self2 w2 where gs: "get_status drv self w1 = (r2, self2, w2)"
      by (cases "get_status drv self w1")
    show ?thesis
    proof (cases r1)
      case (Inl e)
      have "wait_for_scan (Suc j) drv self w = (Some (Inl e), self, w1)" for j
        using False sl Inl by (simp add: wait_for_scan_Suc)
      from this [of k] this [of "k + m"] Suc.prems show ?thesis by simp
    next
      case u: (Inr u)
      show ?thesis
      proof (cases r2)
        case (Inl e)
        have "wait_for_scan (Suc j) drv self w = (Some (Inl e), self2, w2)" for j
          using False sl u gs Inl by (simp add: wait_for_scan_Suc)
        from this [of k] this [of "k + m"] Suc.prems show ?thesis by simp
      next
        case (Inr st)
        have step: "wait_for_scan (Suc j) drv self w = wait_for_scan j drv self2 w2" for j
          using False sl u gs Inr by (simp add: wait_for_scan_Suc)
        from Suc.prems have "wait_for_scan k drv self2 w2 = (Some x, self', w')"
          by (simp add: step)
        from Suc.IH [OF this] show ?thesis
          using step [of "k + m"] by simp
      qed
    qed
  qed
qed

subsection \<open>One call of get_spectrum\<close>

lemma length_c_array [simp]: "length (c_array n xs) = n"
  by (simp add: c_array_def)

lemma start_scan_eq:
  "start_scan drv self w =
     (let c = fst (tlccs_startScan drv (handle self) (dev w));
          d = snd (tlccs_startScan drv (handle self) (dev w));
          w' = emit (StartScan (handle self)) d w
      in if c \<noteq> 0 then (Inl (UserWarning c), self, w') else (Inr (), self, w'))"
  by (simp add: start_scan_def dll_start_scan_def check_error_def case_prod_beta Let_def)

lemma get_scan_data_eq:
  "get_scan_data drv self w =
     (let c = fst (tlccs_getScanData drv (handle self) (dev w));
          data = c_array 3648 (fst (snd (tlccs_getScanData drv (handle self) (dev w))));
          d = snd (snd (tlccs_getScanData drv (handle self) (dev w)));
          w' = emit (GetScanData (handle self)) d w
      in if c \<noteq> 0 then (Inl (UserWarning c), self, w')
         else (Inr data, self\<lparr>scan_data := Some data\<rparr>, w'))"
  by (simp add: get_scan_data_def dll_get_scan_data_def check_error_def case_prod_beta Let_def)

lemma start_scan_frame:
  assumes "start_scan drv self w = (r, self', w')"
  shows "self' = self" "trace w' = trace w @ [StartScan (handle self)]" "files w' = files w"
    "(\<exists>c. r = Inl (UserWarning c)) \<or> r = Inr ()"
  using assms by (auto simp add: start_scan_eq Let_def emit_sel split: if_splits)

lemma get_scan_data_frame:
  assumes "get_scan_data drv self w = (r, self', w')"
  shows "trace w' = trace w @ [GetScanData (handle self)]" "files w' = files w"
    "(\<exists>c. r = Inl (UserWarning c) \<and> self' = self)
     \<or> (\<exists>data. r = Inr data \<and> length data = 3648 \<and> self' = self\<lparr>scan_data := Some data\<rparr>)"
  using assms by (auto simp add: get_scan_data_eq Let_def emit_sel split: if_splits)

lemma get_status_result:
  assumes "get_status drv self w = (r, self', w')"
  shows "(\<exists>c. r = Inl (UserWarning c)) \<or> (\<exists>st. r = Inr st)"
  using assms by (auto simp add: get_status_eq Let_def split: if_splits)

lemma wait_for_scan_ready_bit:
  assumes "wait_for_scan n drv self w = (Some (Inr ()), self', w')"
    and "status_scan_ready self = bit (status self) 4"
    and "\<exists>d. status self = fst (snd (tlccs_getDeviceStatus drv (handle self) d))"
  shows "bit (status self') 4
         \<and> (\<exists>d. status self' = fst (snd (tlccs_getDeviceStatus drv (handle self) d)))"
  using assms
proof (induction n arbitrary: self w)
  case 0
  then show ?case by (cases "status_scan_ready self") auto
next
  case (Suc k)
  show ?case
  proof (cases "status_scan_ready self")
    case True
    with Suc.prems show ?thesis by simp
  next
    case False
    obtain r1 w1 where sl: "time_sleep (integration_time_s self / 10) w = (r1, w1)"
      by (cases "time_sleep (integration_time_s self / 10) w")
    obtain r2 self2 w2 where gs: "get_status drv self w1 = (r2, self2, w2)"
      by (cases "get_status drv self w1")
    show ?thesis
    proof (cases r1)
      case (Inl e)
      with Suc.prems(1) False sl show ?thesis by (simp add: wait_for_scan_Suc)
    next
      case u: (Inr u)
      show ?thesis
      proof (cases r2)
        case (Inl e)
        with Suc.prems(1) False sl u gs show ?thesis by (simp add: wait_for_scan_Suc)
      next
        case (Inr st)
        with Suc.prems(1) False sl u gs
        have rec: "wait_for_scan k drv self2 w2 = (Some (Inr ()), self', w')"
          by (simp add: wait_for_scan_Suc)
        have h2: "handle self2 = handle self"
          by (rule get_status_frame(1) [OF gs])
        from gs Inr have "status_scan_ready self2 = bit (status self2) 4"
          by (simp add: get_status_ready(1))
        moreover from gs Inr
        have "\<exists>d. status self2 = fst (snd (tlccs_getDeviceStatus drv (handle self2) d))"
          unfolding h2 using get_status_ready(3) by blast
        ultimately show ?thesis
          using Suc.IH [OF rec] h2 by simp
      qed
    qed
  qed
qed

lemma get_spectrum_outcomes:
  assumes "get_spectrum n py drv self filename w = (r, self', w')"
  shows "(handle self' = handle self \<and> integration_time_s self' = integration_time_s self
      \<and> wavelength_data self' = wavelength_data self)
     \<and> ((\<exists>c. r = Some (Inl (UserWarning c))
            \<and> trace w' = trace w @ [GetDeviceStatus (handle self)]
            \<and> files w' = files w \<and> scan_data self' = scan_data self)
        \<or> (r = Some (Inr None) \<and> \<not> bit (status self') 1
            \<and> trace w' = trace w @ [GetDeviceStatus (handle self)]
            \<and> files w' = files w \<and> scan_data self' = scan_data self)
        \<or> (\<exists>k\<le>n. (r = None \<or> (\<exists>e. r = Some (Inl e)))
            \<and> trace w' = trace w @ [GetDeviceStatus (handle self), StartScan (handle self)]
                 @ concat (replicate k (poll self))
            \<and> files w' = files w \<and> scan_data self' = scan_data self)
        \<or> (\<exists>k\<le>n. (\<exists>c. r = Some (Inl (UserWarning c)))
            \<and> bit (status self') 4
            \<and> (\<exists>d. status self' = fst (snd (tlccs_getDeviceStatus drv (handle self) d)))
            \<and> trace w' = trace w @ [GetDeviceStatus (handle self), StartScan (handle self)]
                 @ concat (replicate k (poll self)) @ [GetScanData (handle self)]
            \<and> files w' = files w \<and> scan_data self' = scan_data self)
        \<or> (\<exists>k\<le>n. \<exists>datas. r = Some (Inr (Some (wavelength_data self, datas)))
            \<and> length datas = 3648 \<and> scan_data self' = Some datas
            \<and> bit (status self') 4
            \<and> (\<exists>d. status self' = fst (snd (tlccs_getDeviceStatus drv (handle self) d)))
            \<and> trace w' = trace w @ [GetDeviceStatus (handle self), StartScan (handle self)]
                 @ concat (replicate k (poll self)) @ [GetScanData (handle self)]
            \<and> files w' =
                (case filename of
                   None \<Rightarrow> files w
                 | Some f \<Rightarrow>
                     (files w)(f @ ''.txt'' \<mapsto>
                        write_spectrum py (zip (wavelength_data self) datas) []))))"
  (is "?frame \<and> ?out")
proof -
  obtain r1 self1 w1 where gs: "get_status drv self w = (r1, self1, w1)"
    by (cases "get_status drv self w")
  note f1 = get_status_frame [OF gs]
  show ?thesis
  proof (cases r1)
    case (Inl e)
    with assms gs have "r = Some (Inl e)" "self' = self1" "w' = w1"
      by (simp_all add: get_spectrum_def)
    with f1 get_status_result [OF gs] Inl show ?thesis by auto
  next
    case st: (Inr st)
    note rd = get_status_ready [OF gs [unfolded st]]
    show ?thesis
    proof (cases "status_idle_soft_trig self1")
      case False
      with assms gs st have "r = Some (Inr None)" "self' = self1" "w' = w1"
        by (simp_all add: get_spectrum_def)
      with f1 rd False show ?thesis by auto
    next
      case idle: True
      obtain r2 self2 w2 where ss: "start_scan drv self1 w1 = (r2, self2, w2)"
        by (cases "start_scan drv self1 w1")
      note f2 = start_scan_frame [OF ss]
      have tr2: "trace w2 = trace w @ [GetDeviceStatus (handle self), StartScan (handle self)]"
        using f1 f2 by simp
      show ?thesis
      proof (cases r2)
        case (Inl e)
        with assms gs st idle ss have "r = Some (Inl e)" "self' = self2" "w' = w2"
          by (simp_all add: get_spectrum_def)
        with f1 f2 tr2 have "?frame" and "\<exists>k\<le>n. (r = None \<or> (\<exists>e. r = Some (Inl e)))
            \<and> trace w' = trace w @ [GetDeviceStatus (handle self), StartScan (handle self)]
                 @ concat (replicate k (poll self))
            \<and> files w' = files w \<and> scan_data self' = scan_data self"
          by (auto intro!: exI [of _ 0])
        then show ?thesis by blast
      next
        case u: (Inr u)
        obtain r3 self3 w3 where wt: "wait_for_scan n drv self2 w2 = (r3, self3, w3)"
          by (cases "wait_for_scan n drv self2 w2")
        from wait_for_scan_run [OF wt] obtain k where f3:
          "handle self3 = handle self2" "integration_time_s self3 = integration_time_s self2"
          "wavelength_data self3 = wavelength_data self2" "scan_data self3 = scan_data self2"
          "files w3 = files w2" "k \<le> n"
          "trace w3 = trace w2 @ concat (replicate k (poll self2))"
          "r3 = Some (Inr ()) \<longrightarrow> status_scan_ready self3"
          by auto
        have ps: "poll self2 = poll self"
          using f1 f2 by (simp add: poll_def)
        have tr3: "trace w3 = trace w @ [GetDeviceStatus (handle self), StartScan (handle self)]
                 @ concat (replicate k (poll self))"
          using f3(7) tr2 ps by simp
        have fr3: "handle self3 = handle self" "integration_time_s self3 = integration_time_s self"
          "wavelength_data self3 = wavelength_data self" "scan_data self3 = scan_data self"
          "files w3 = files w"
          using f1 f2 f3 by simp_all
        show ?thesis
        proof (cases "r3 = Some (Inr ())")
          case False
          then have "r3 = None \<or> (\<exists>e. r3 = Some (Inl e))"
          proof (cases r3)
            case None
            then show ?thesis by simp
          next
            case (Some x)
            with False show ?thesis by (cases x) auto
          qed
          with assms gs st idle ss u wt
          have "r = None \<or> (\<exists>e. r = Some (Inl e))" "self' = self3" "w' = w3"
            by (auto simp add: get_spectrum_def)
          with fr3 tr3 f3(6)
          have "?frame" and "\<exists>k\<le>n. (r = None \<or> (\<exists>e. r = Some (Inl e)))
            \<and> trace w' = trace w @ [GetDeviceStatus (handle self), StartScan (handle self)]
                 @ concat (replicate k (poll self))
            \<and> files w' = files w \<and> scan_data self' = scan_data self"
            by auto
          then show ?thesis by blast
        next
          case fin: True
          obtain r4 self4 w4 where gd: "get_scan_data drv self3 w3 = (r4, self4, w4)"
            by (cases "get_scan_data drv self3 w3")
          note f4 = get_scan_data_frame [OF gd]
          have tr4: "trace w4 = trace w @ [GetDeviceStatus (handle self), StartScan (handle self)]
                 @ concat (replicate k (poll self)) @ [GetScanData (handle self)]"
            using f4(1) tr3 fr3 by simp
          have "status_scan_ready self2 = bit (status self2) 4"
            using rd(1) f2(1) by simp
          moreover
          have "\<exists>d. status self2 = fst (snd (tlccs_getDeviceStatus drv (handle self2) d))"
            using rd(3) f1(1) f2(1) by auto
          ultimately have b3: "bit (status self3) 4"
            "\<exists>d. status self3 = fst (snd (tlccs_getDeviceStatus drv (handle self) d))"
            using wait_for_scan_ready_bit [OF wt [unfolded fin]] f1(1) f2(1) by simp_all
          from f4(3) show ?thesis
          proof
            assume "\<exists>c. r4 = Inl (UserWarning c) \<and> self4 = self3"
            then obtain c where c: "r4 = Inl (UserWarning c)" "self4 = self3" by blast
            with assms gs st idle ss u wt fin gd
            have "r = Some (Inl (UserWarning c))" "self' = self3" "w' = w4"
              by (simp_all add: get_spectrum_def)
            with fr3 tr4 f4(2) f3(6) b3
            have "?frame" and "\<exists>k\<le>n. (\<exists>c. r = Some (Inl (UserWarning c)))
            \<and> bit (status self') 4
            \<and> (\<exists>d. status self' = fst (snd (tlccs_getDeviceStatus drv (handle self) d)))
            \<and> trace w' = trace w @ [GetDeviceStatus (handle self), StartScan (handle self)]
                 @ concat (replicate k (poll self)) @ [GetScanData (handle self)]
            \<and> files w' = files w \<and> scan_data self' = scan_data self"
              by auto
            then show ?thesis by blast
          next
            assume "\<exists>data. r4 = Inr data \<and> length data = 3648
                      \<and> self4 = self3\<lparr>scan_data := Some data\<rparr>"
            then obtain data where d: "r4 = Inr data" "length data = 3648"
              "self4 = self3\<lparr>scan_data := Some data\<rparr>" by blast
            let ?w5 = "case filename of None \<Rightarrow> w4
                       | Some f \<Rightarrow> save_spectrum py f (wavelength_data self3) data w4"
            from assms gs st idle ss u wt fin gd d
            have res: "r = Some (Inr (Some (wavelength_data self3, data)))" "self' = self4"
              "w' = ?w5"
              by (auto simp add: get_spectrum_def split: option.splits)
            have tr5: "trace ?w5 = trace w4"
              by (simp add: save_spectrum_def split: option.split)
            have fl5: "files ?w5 = (case filename of None \<Rightarrow> files w
                 | Some f \<Rightarrow> (files w)(f @ ''.txt'' \<mapsto>
                        write_spectrum py (zip (wavelength_data self) data) []))"
              using f4(2) fr3 by (simp add: save_spectrum_def split: option.split)
            have b4: "bit (status self4) 4"
              "\<exists>d. status self4 = fst (snd (tlccs_getDeviceStatus drv (handle self) d))"
              using d(3) b3 by simp_all
            from res d fr3 tr4 tr5 fl5 b4 f3(6)
            have "?frame" and "\<exists>k\<le>n. \<exists>datas. r = Some (Inr (Some (wavelength_data self, datas)))
            \<and> length datas = 3648 \<and> scan_data self' = Some datas
            \<and> bit (status self') 4
            \<and> (\<exists>d. status self' = fst (snd (tlccs_getDeviceStatus drv (handle self) d)))
            \<and> trace w' = trace w @ [GetDeviceStatus (handle self), StartScan (handle self)]
                 @ concat (replicate k (poll self)) @ [GetScanData (handle self)]
            \<and> files w' =
                (case filename of
                   None \<Rightarrow> files w
                 | Some f \<Rightarrow>
                     (files w)(f @ ''.txt'' \<mapsto>
                        write_spectrum py (zip (wavelength_data self) datas) []))"
              by auto
            then show ?thesis by blast
          qed
        qed
      qed
    qed
  qed
qed

text \<open>A call that leaves the polling loop gives the same result with any larger fuel.\<close>

lemma get_spectrum_fuel:
  assumes "get_spectrum n py drv self filename w = (Some x, self', w')"
  shows "get_spectrum (n + m) py drv self filename w = (Some x, self', w')"
proof -
  obtain r1 self1 w1 where gs: "get_status drv self w = (r1, self1, w1)"
    by (cases "get_status drv self w")
  obtain r2 self2 w2 where ss: "start_scan drv self1 w1 = (r2, self2, w2)"
    by (cases "start_scan drv self1 w1")
  obtain r3 self3 w3 where wt: "wait_for_scan n drv self2 w2 = (r3, self3, w3)"
    by (cases "wait_for_scan n drv self2 w2")
  show ?thesis
  proof (cases r3)
    case None
    with assms gs ss wt have "get_spectrum k py drv self filename w
        = get_spectrum n py drv self filename w" for k
      by (auto simp add: get_spectrum_def split: sum.splits if_splits)
    with assms show ?thesis by simp
  next
    case (Some y)
    from wait_for_scan_fuel [OF wt [unfolded Some], of m]
    have "wait_for_scan (n + m) drv self2 w2 = wait_for_scan n drv self2 w2"
      using wt Some by simp
    with gs ss have "get_spectrum (n + m) py drv self filename w
        = get_spectrum n py drv self filename w"
      by (cases r1; cases r2) (simp_all add: get_spectrum_def)
    with assms show ?thesis by simp
  qed
qed

lemma get_spectrum_not_ready:
  assumes "tlccs_getDeviceStatus drv (handle self) (dev w) = (0, st, d)" and "\<not> bit st 1"
  shows "get_spectrum n py drv self filename w =
           (Some (Inr None),
            self\<lparr>status := st,
              status_idle_soft_trig := bit st 1,
              status_idle_ext_trig := bit st 7,
              status_scan_starting := bit st 3,
              status_scan_in_progress := bit st 2,
              status_scan_ready := bit st 4\<rparr>,
            emit (GetDeviceStatus (handle self)) d w)"
  using assms(2) by (simp add: get_spectrum_def get_status_ok [OF assms(1)])

text \<open>
  C3. When the status word that \<^verbatim>\<open>get_spectrum\<close> reads first has the idle,
  software-trigger-ready bit (0x0002) clear, \<^verbatim>\<open>get_spectrum\<close> returns \<^verbatim>\<open>None\<close>, whatever
  the fuel: the status query is its only external call, so it starts no scan, fetches
  no scan data and writes no file.
\<close>

theorem get_spectrum_not_idle_no_scan:
  assumes "tlccs_getDeviceStatus drv (handle self) (dev w) = (0, st, d)"
    and "st AND 0x0002 = 0"
    and "get_spectrum n py drv self filename w = (r, self', w')"
  shows "r = Some (Inr None)
         \<and> trace w' = trace w @ [GetDeviceStatus (handle self)]
         \<and> (\<forall>h. StartScan h \<notin> set (drop (length (trace w)) (trace w')))
         \<and> (\<forall>h. GetScanData h \<notin> set (drop (length (trace w)) (trace w')))
         \<and> files w' = files w"
proof -
  from assms(2) have "\<not> bit st 1"
    using and_exp_eq_0_iff_not_bit [of st 1] by simp
  from get_spectrum_not_ready [OF assms(1) this, of n py filename] assms(3)
  show ?thesis by (auto simp add: emit_sel)
qed

text \<open>
  C9. In that case \<^verbatim>\<open>scan_data\<close>, \<^verbatim>\<open>wavelength_data\<close> and \<^verbatim>\<open>integration_time_s\<close> are as
  before the call: the object differs from the one before the call in the status word
  and the five status flags only.
\<close>

theorem get_spectrum_not_idle_frame:
  assumes "tlccs_getDeviceStatus drv (handle self) (dev w) = (0, st, d)"
    and "st AND 0x0002 = 0"
    and "get_spectrum n py drv self filename w = (r, self', w')"
  shows "scan_data self' = scan_data self \<and> wavelength_data self' = wavelength_data self
         \<and> integration_time_s self' = integration_time_s self
         \<and> self' = self\<lparr>status := st,
              status_idle_soft_trig := False,
              status_idle_ext_trig := bit st 7,
              status_scan_starting := bit st 3,
              status_scan_in_progress := bit st 2,
              status_scan_ready := bit st 4\<rparr>"
proof -
  from assms(2) have nb: "\<not> bit st 1"
    using and_exp_eq_0_iff_not_bit [of st 1] by simp
  from get_spectrum_not_ready [OF assms(1) this, of n py filename] assms(3) nb
  show ?thesis by auto
qed








lemma sim_run:
  "get_spectrum 5 sim_python sim_driver sim_spectrometer filename
       (sim_world [0x0002, 0x0004, 0x0010] (1 / 10))
     = (Some (Inr (Some (c_array 3648 [350, 351, 352], c_array 3648 [10, 20, 30]))),
        sim_spectrometer\<lparr>status := 0x0010,
          status_idle_soft_trig := False,
          status_idle_ext_trig := False,
          status_scan_starting := False,
          status_scan_in_progress := False,
          status_scan_ready := True,
          scan_data := Some (c_array 3648 [10, 20, 30])\<rparr>,
        (case filename of
           None \<Rightarrow> (\<lambda>w. w)
         | Some f \<Rightarrow>
             save_spectrum sim_python f (c_array 3648 [350, 351, 352])
               (c_array 3648 [10, 20, 30]))
          \<lparr>dev = \<lparr>sim_status = [], sim_time = 1 / 10\<rparr>,
           trace = [GetDeviceStatus 7, StartScan 7, Sleep (1 / 100), GetDeviceStatus 7,
                    Sleep (1 / 100), GetDeviceStatus 7, GetScanData 7],
           files = Map.empty\<rparr>)"
  by (simp add: get_spectrum_def get_status_eq start_scan_eq get_scan_data_eq
      wait_for_scan.simps time_sleep_def sim_driver_def sim_world_def sim_spectrometer_def
      new_spectrometer_def emit_def Let_def split: option.split)



theorem get_spectrum_not_idle_no_scan_witness:
  "fst (get_spectrum 3 sim_python (fixed_driver 0 0x0010 0) sim_spectrometer
          (Some ''example'') unit_world) = Some (Inr None)
   \<and> trace (snd (snd (get_spectrum 3 sim_python (fixed_driver 0 0x0010 0) sim_spectrometer
          (Some ''example'') unit_world))) = [GetDeviceStatus 7]
   \<and> files (snd (snd (get_spectrum 3 sim_python (fixed_driver 0 0x0010 0) sim_spectrometer
          (Some ''example'') unit_world))) = Map.empty"
proof -
  let ?run = "get_spectrum 3 sim_python (fixed_driver 0 0x0010 0) sim_spectrometer
          (Some ''example'') unit_world"
  have a: "tlccs_getDeviceStatus (fixed_driver 0 0x0010 0) (handle sim_spectrometer)
             (dev unit_world) = (0, 0x0010, ())"
    by (simp add: fixed_driver_def)
  have b: "(0x0010 :: 32 word) AND 0x0002 = 0"
    by simp
  have c: "?run = (fst ?run, fst (snd ?run), snd (snd ?run))"
    by simp
  show ?thesis
    using get_spectrum_not_idle_no_scan [OF a b c]
    by (simp add: unit_world_def sim_spectrometer_def new_spectrometer_def)
qed

theorem get_spectrum_not_idle_frame_witness:
  "scan_data (fst (snd (get_spectrum 3 sim_python (fixed_driver 0 0x0010 0)
       (sim_spectrometer\<lparr>scan_data := Some [1, 2]\<rparr>) None unit_world))) = Some [1, 2]
   \<and> integration_time_s (fst (snd (get_spectrum 3 sim_python (fixed_driver 0 0x0010 0)
       (sim_spectrometer\<lparr>scan_data := Some [1, 2]\<rparr>) None unit_world))) = 1 / 10
   \<and> wavelength_data (fst (snd (get_spectrum 3 sim_python (fixed_driver 0 0x0010 0)
       (sim_spectrometer\<lparr>scan_data := Some [1, 2]\<rparr>) None unit_world)))
       = c_array 3648 [350, 351, 352]
   \<and> status_scan_ready (fst (snd (get_spectrum 3 sim_python (fixed_driver 0 0x0010 0)
       (sim_spectrometer\<lparr>scan_data := Some [1, 2]\<rparr>) None unit_world)))"
proof -
  let ?s = "sim_spectrometer\<lparr>scan_data := Some [1, 2]\<rparr>"
  let ?run = "get_spectrum 3 sim_python (fixed_driver 0 0x0010 0) ?s None unit_world"
  have a: "tlccs_getDeviceStatus (fixed_driver 0 0x0010 0) (handle ?s) (dev unit_world)
             = (0, 0x0010, ())"
    by (simp add: fixed_driver_def)
  have b: "(0x0010 :: 32 word) AND 0x0002 = 0"
    by simp
  have c: "?run = (fst ?run, fst (snd ?run), snd (snd ?run))"
    by simp
  show ?thesis
    using get_spectrum_not_idle_frame [OF a b c]
    by (simp add: sim_spectrometer_def new_spectrometer_def)
qed

subsection \<open>Construction and the saved file\<close>

lemma write_spectrum_eq:
  "write_spectrum py xs acc =
     acc @ map (\<lambda>(wave, data). fmt_0_3f py wave @ '':'' @ str_float py data @ [CHR 0x0A]) xs"
  by (induction xs arbitrary: acc) auto

lemma write_spectrum_lines:
  assumes "length waves = length datas"
  shows "length (write_spectrum py (zip waves datas) []) = length waves"
    and "i < length waves \<Longrightarrow>
         write_spectrum py (zip waves datas) [] ! i
           = fmt_0_3f py (waves ! i) @ '':'' @ str_float py (datas ! i) @ [CHR 0x0A]"
  using assms by (simp_all add: write_spectrum_eq)

lemma get_device_info_frame:
  assumes "get_device_info drv self w = (r, self', w')"
  shows "trace w' = trace w @ [IdentificationQuery (handle self)]" "files w' = files w"
    "handle self' = handle self" "wavelength_data self' = wavelength_data self"
    "scan_data self' = scan_data self"
    "(\<exists>e. r = Inl e) \<or> length (device_info self') = 5"
  using assms
  by (auto simp add: get_device_info_def dll_get_device_info_def check_error_def emit_sel
      case_prod_beta Let_def split: if_splits)

lemma get_wavelength_data_frame:
  assumes "get_wavelength_data drv self uc w = (r, self', w')"
  shows "trace w' = trace w @ [GetWavelengthData (handle self) uc]" "files w' = files w"
    "handle self' = handle self" "device_info self' = device_info self"
    "scan_data self' = scan_data self"
    "(\<exists>e. r = Inl e) \<or> length (wavelength_data self') = 3648"
  using assms
  by (auto simp add: get_wavelength_data_def dll_get_wavelength_data_def check_error_def
      emit_sel case_prod_beta Let_def split: if_splits)

lemma get_status_frame2:
  assumes "get_status drv self w = (r, self', w')"
  shows "device_info self' = device_info self"
  using assms by (auto simp add: get_status_eq Let_def split: if_splits)

lemma get_integration_time_frame:
  assumes "get_integration_time drv self w = (r, self', w')"
  shows "trace w' = trace w @ [GetIntegrationTime (handle self)]" "files w' = files w"
    "handle self' = handle self" "device_info self' = device_info self"
    "scan_data self' = scan_data self" "wavelength_data self' = wavelength_data self"
  using assms by (auto simp add: get_integration_time_eq Let_def emit_sel split: if_splits)

lemma dll_init_frame:
  assumes "dll_init drv rn idq rst w = (r, h, w')"
  shows "trace w' = trace w @ [Init rn idq rst]" "files w' = files w"
    "h = fst (snd (tlccs_init drv rn idq rst (dev w)))"
  using assms by (auto simp add: dll_init_def emit_sel case_prod_beta)

lemma Spectrometer_ok:
  assumes "Spectrometer drv serial_number name' reset verbose' very_verbose' w = (Inr self, w')"
  shows "trace w' = trace w @
           [Init (''USB0::0x1313::0x8081::'' @ serial_number @ ''::RAW'') True reset,
            IdentificationQuery (handle self), GetWavelengthData (handle self) False,
            GetDeviceStatus (handle self), GetIntegrationTime (handle self)]"
    and "files w' = files w"
    and "length (device_info self) = 5" and "length (wavelength_data self) = 3648"
    and "scan_data self = None"
    and "handle self = fst (snd (tlccs_init drv
           (''USB0::0x1313::0x8081::'' @ serial_number @ ''::RAW'') True reset (dev w)))"
proof -
  let ?rn = "''USB0::0x1313::0x8081::'' @ serial_number @ ''::RAW''"
  from assms have enc: "encode_ascii ?rn = Inr ?rn"
    by (cases "is_ascii ?rn") (simp_all add: Spectrometer_def encode_ascii_def)
  obtain r1 h w1 where i1: "dll_init drv ?rn True reset w = (r1, h, w1)"
    by (cases "dll_init drv ?rn True reset w")
  let ?s1 = "new_spectrometer name' verbose' very_verbose' h"
  obtain r2 self2 w2 where i2: "get_device_info drv ?s1 w1 = (r2, self2, w2)"
    by (cases "get_device_info drv ?s1 w1")
  obtain r3 self3 w3 where i3: "get_wavelength_data drv self2 False w2 = (r3, self3, w3)"
    by (cases "get_wavelength_data drv self2 False w2")
  obtain r4 self4 w4 where i4: "get_status drv self3 w3 = (r4, self4, w4)"
    by (cases "get_status drv self3 w3")
  obtain r5 self5 w5 where i5: "get_integration_time drv self4 w4 = (r5, self5, w5)"
    by (cases "get_integration_time drv self4 w4")
  from assms enc i1 obtain x1 where r1: "r1 = Inr x1"
    by (cases r1) (simp_all add: Spectrometer_def)
  from assms enc i1 r1 i2 obtain x2 where r2: "r2 = Inr x2"
    by (cases r2) (simp_all add: Spectrometer_def)
  from assms enc i1 r1 i2 r2 i3 obtain x3 where r3: "r3 = Inr x3"
    by (cases r3) (simp_all add: Spectrometer_def)
  from assms enc i1 r1 i2 r2 i3 r3 i4 obtain x4 where r4: "r4 = Inr x4"
    by (cases r4) (simp_all add: Spectrometer_def)
  from assms enc i1 r1 i2 r2 i3 r3 i4 r4 i5 obtain x5 where r5: "r5 = Inr x5"
    by (cases r5) (simp_all add: Spectrometer_def)
  from assms enc i1 r1 i2 r2 i3 r3 i4 r4 i5 r5 have res: "self = self5" "w' = w5"
    by (simp_all add: Spectrometer_def)
  note f1 = dll_init_frame [OF i1]
  note f2 = get_device_info_frame [OF i2]
  note f3 = get_wavelength_data_frame [OF i3]
  note f4 = get_status_frame [OF i4] get_status_frame2 [OF i4]
  note f5 = get_integration_time_frame [OF i5]
  have h1: "handle ?s1 = h" "scan_data ?s1 = None"
    by (simp_all add: new_spectrometer_def)
  have hs: "handle self2 = h" "handle self3 = h" "handle self4 = h" "handle self5 = h"
    using h1 f2(3) f3(3) f4(1) f5(3) by simp_all
  show "trace w' = trace w @
           [Init ?rn True reset,
            IdentificationQuery (handle self), GetWavelengthData (handle self) False,
            GetDeviceStatus (handle self), GetIntegrationTime (handle self)]"
    using f1(1) f2(1) f3(1) f4(5) f5(1) hs h1 res by simp
  show "files w' = files w"
    using f1(2) f2(2) f3(2) f4(6) f5(2) res by simp
  show "length (device_info self) = 5"
    using f2(6) r2 f3(4) f4(8) f5(4) res by simp
  show "length (wavelength_data self) = 3648"
    using f3(6) r3 f4(3) f5(6) res by simp
  show "scan_data self = None"
    using h1 f2(5) f3(5) f4(4) f5(5) res by simp
  show "handle self = fst (snd (tlccs_init drv ?rn True reset (dev w)))"
    using hs res f1(3) by simp
qed


text \<open>
  C6. The wavelength array of a constructed object has 3648 entries. A call of
  \<^verbatim>\<open>get_spectrum\<close> on an object with such an array that returns a spectrum returns the
  stored wavelength array and a scan array of 3648 entries, which it has stored; given
  a file name it has written 3648 strings to the file, the string of index \<open>i\<close> being
  the wavelength of index \<open>i\<close> formatted by \<^verbatim>\<open>%0.3f\<close>, a colon, \<^verbatim>\<open>str\<close> of the intensity of
  index \<open>i\<close> and a newline.
\<close>

theorem get_spectrum_saves_one_line_per_index:
  "(Spectrometer drv serial_number name' reset verbose' very_verbose' w0 = (Inr self0, w1) \<longrightarrow>
      length (wavelength_data self0) = 3648)
   \<and> (length (wavelength_data self) = 3648
        \<and> get_spectrum n py drv self filename w = (Some (Inr (Some (waves, datas))), self', w')
      \<longrightarrow>
        waves = wavelength_data self' \<and> scan_data self' = Some datas
        \<and> length waves = 3648 \<and> length datas = 3648
        \<and> (\<forall>f. filename = Some f \<longrightarrow>
              (\<exists>lines. files w' (f @ ''.txt'') = Some lines \<and> length lines = 3648
                 \<and> (\<forall>i<3648. lines ! i =
                       fmt_0_3f py (waves ! i) @ '':'' @ str_float py (datas ! i)
                         @ [CHR 0x0A]))))"
proof (intro conjI impI)
  assume "Spectrometer drv serial_number name' reset verbose' very_verbose' w0 = (Inr self0, w1)"
  then show "length (wavelength_data self0) = 3648"
    by (rule Spectrometer_ok(4))
next
  assume a: "length (wavelength_data self) = 3648
        \<and> get_spectrum n py drv self filename w = (Some (Inr (Some (waves, datas))), self', w')"
  then have run: "get_spectrum n py drv self filename w
                    = (Some (Inr (Some (waves, datas))), self', w')"
    and len: "length (wavelength_data self) = 3648"
    by simp_all
  from get_spectrum_outcomes [OF run]
  have w: "wavelength_data self' = wavelength_data self" "waves = wavelength_data self"
    and d: "length datas = 3648" "scan_data self' = Some datas"
    and fl: "files w' = (case filename of None \<Rightarrow> files w
                 | Some f \<Rightarrow> (files w)(f @ ''.txt'' \<mapsto>
                        write_spectrum py (zip (wavelength_data self) datas) []))"
    by auto
  have eq: "length waves = length datas" using w len d by simp
  show "waves = wavelength_data self'" "scan_data self' = Some datas"
    "length waves = 3648" "length datas = 3648"
    using w d len by simp_all
  show "\<forall>f. filename = Some f \<longrightarrow>
              (\<exists>lines. files w' (f @ ''.txt'') = Some lines \<and> length lines = 3648
                 \<and> (\<forall>i<3648. lines ! i =
                       fmt_0_3f py (waves ! i) @ '':'' @ str_float py (datas ! i)
                         @ [CHR 0x0A]))"
    using fl w(2) [symmetric] write_spectrum_lines [OF eq, where py = py] len d(1)
    by auto
qed

text \<open>
  C10. A call of \<^verbatim>\<open>get_spectrum\<close> with a file name \<open>f\<close> that returns a spectrum has
  created or replaced the file \<open>f @ ''.txt''\<close> and touched no other file. A call
  without a file name, or one that does not return a spectrum, leaves the files as
  they were.
\<close>

theorem get_spectrum_file_name:
  assumes "get_spectrum n py drv self filename w = (r, self', w')"
  shows "(\<forall>f. filename = Some f \<and> (\<exists>res. r = Some (Inr (Some res))) \<longrightarrow>
            files w' (f @ ''.txt'') \<noteq> None
            \<and> dom (files w') = insert (f @ ''.txt'') (dom (files w))
            \<and> (\<forall>g. g \<noteq> f @ ''.txt'' \<longrightarrow> files w' g = files w g))
         \<and> (filename = None \<or> \<not> (\<exists>res. r = Some (Inr (Some res))) \<longrightarrow> files w' = files w)"
  using get_spectrum_outcomes [OF assms]
  by (elim conjE disjE exE) (auto split: option.splits)


lemma sim_construct:
  "Spectrometer sim_driver ''M00405433'' ''CCS100'' True True False (sim_world [0x0002] (1 / 10))
     = (Inr \<lparr>name = ''CCS100'', verbose = True, very_verbose = False, handle = 7,
             device_info = [''Thorlabs'', ''CCS100'', ''M00405433'', ''1.2.0'', ''2.0.0''],
             wavelength_data = c_array 3648 [350, 351, 352],
             wavelength_min = 350, wavelength_max = 700,
             status = 0x0002, status_idle_soft_trig = True, status_idle_ext_trig = False,
             status_scan_starting = False, status_scan_in_progress = False,
             status_scan_ready = False, integration_time_s = 1 / 10, scan_data = None\<rparr>,
        \<lparr>dev = \<lparr>sim_status = [], sim_time = 1 / 10\<rparr>,
         trace = [Init ''USB0::0x1313::0x8081::M00405433::RAW'' True True,
                  IdentificationQuery 7, GetWavelengthData 7 False, GetDeviceStatus 7,
                  GetIntegrationTime 7],
         files = Map.empty\<rparr>)"
  by (simp add: Spectrometer_def encode_ascii_def is_ascii_def dll_init_def
      get_device_info_def dll_get_device_info_def c_char_value_def
      get_wavelength_data_def dll_get_wavelength_data_def get_status_eq
      get_integration_time_eq check_error_def sim_driver_def sim_world_def
      new_spectrometer_def emit_def Let_def)

theorem get_spectrum_saves_one_line_per_index_witness:
  "length (wavelength_data sim_spectrometer) = 3648
   \<and> fst (get_spectrum 5 sim_python sim_driver sim_spectrometer (Some ''example'')
          (sim_world [0x0002, 0x0004, 0x0010] (1 / 10)))
       = Some (Inr (Some (c_array 3648 [350, 351, 352], c_array 3648 [10, 20, 30])))
   \<and> (\<exists>lines. files (snd (snd (get_spectrum 5 sim_python sim_driver sim_spectrometer
            (Some ''example'') (sim_world [0x0002, 0x0004, 0x0010] (1 / 10))))) ''example.txt''
          = Some lines
        \<and> length lines = 3648
        \<and> lines ! 0 = fmt_0_3f sim_python (c_array 3648 [350, 351, 352] ! 0) @ '':''
            @ str_float sim_python (c_array 3648 [10, 20, 30] ! 0) @ [CHR 0x0A])"
proof -
  let ?run = "get_spectrum 5 sim_python sim_driver sim_spectrometer (Some ''example'')
          (sim_world [0x0002, 0x0004, 0x0010] (1 / 10))"
  have len: "length (wavelength_data sim_spectrometer) = 3648"
    by (simp add: sim_spectrometer_def)
  have run: "?run = (Some (Inr (Some (c_array 3648 [350, 351, 352], c_array 3648 [10, 20, 30]))),
      fst (snd ?run), snd (snd ?run))"
    by (simp add: sim_run)
  note inst = get_spectrum_saves_one_line_per_index
         [of sim_driver "''M00405433''" "''CCS100''" True True False
            "sim_world [0x0002] (1 / 10)" sim_spectrometer "sim_world [] 0"
            sim_spectrometer 5 sim_python "Some ''example''"
            "sim_world [0x0002, 0x0004, 0x0010] (1 / 10)"
            "c_array 3648 [350, 351, 352]" "c_array 3648 [10, 20, 30]"
            "fst (snd ?run)" "snd (snd ?run)"]
  from inst [THEN conjunct2, rule_format, OF conjI [OF len run]]
  have "\<exists>lines. files (snd (snd ?run)) ''example.txt'' = Some lines \<and> length lines = 3648
          \<and> (\<forall>i<3648. lines ! i =
                fmt_0_3f sim_python (c_array 3648 [350, 351, 352] ! i) @ '':''
                  @ str_float sim_python (c_array 3648 [10, 20, 30] ! i) @ [CHR 0x0A])"
    by auto
  then obtain lines where l: "files (snd (snd ?run)) ''example.txt'' = Some lines"
    "length lines = 3648"
    "lines ! 0 = fmt_0_3f sim_python (c_array 3648 [350, 351, 352] ! 0) @ '':''
                  @ str_float sim_python (c_array 3648 [10, 20, 30] ! 0) @ [CHR 0x0A]"
    by auto
  have "fst ?run
      = Some (Inr (Some (c_array 3648 [350, 351, 352], c_array 3648 [10, 20, 30])))"
    by (simp add: sim_run)
  with len l show ?thesis by blast
qed

theorem get_spectrum_file_name_witness:
  "dom (files (snd (snd (get_spectrum 5 sim_python sim_driver sim_spectrometer (Some ''example'')
          (sim_world [0x0002, 0x0004, 0x0010] (1 / 10)))))) = {''example.txt''}
   \<and> files (snd (snd (get_spectrum 5 sim_python sim_driver sim_spectrometer None
          (sim_world [0x0002, 0x0004, 0x0010] (1 / 10))))) = Map.empty"
proof -
  let ?w = "sim_world [0x0002, 0x0004, 0x0010] (1 / 10)"
  let ?a = "get_spectrum 5 sim_python sim_driver sim_spectrometer (Some ''example'') ?w"
  let ?b = "get_spectrum 5 sim_python sim_driver sim_spectrometer None ?w"
  have a: "?a = (fst ?a, fst (snd ?a), snd (snd ?a))"
    and b: "?b = (fst ?b, fst (snd ?b), snd (snd ?b))"
    by simp_all
  have fa: "fst ?a = Some (Inr (Some (c_array 3648 [350, 351, 352], c_array 3648 [10, 20, 30])))"
    by (simp add: sim_run)
  have fw: "files ?w = Map.empty"
    by (simp add: sim_world_def)
  from get_spectrum_file_name [OF a] get_spectrum_file_name [OF b] fa fw
  show ?thesis by simp
qed

subsection \<open>The wavelength table and the handle\<close>

lemma close_eq:
  "close drv self w =
     (let c = fst (tlccs_close drv (handle self) (dev w));
          d = snd (tlccs_close drv (handle self) (dev w));
          w' = emit (Close (handle self)) d w
      in if c \<noteq> 0 then (Inl (UserWarning c), self, w') else (Inr (), self, w'))"
  by (simp add: close_def dll_close_def check_error_def case_prod_beta Let_def)

lemma filter_polls:
  assumes "\<And>t. \<not> P (Sleep t)" and "\<And>h. \<not> P (GetDeviceStatus h)"
  shows "filter P (concat (replicate k (poll self))) = []"
  using assms by (induction k) (simp_all add: poll_def)

lemma get_spectrum_filter:
  assumes "get_spectrum n py drv self filename w = (r, self', w')"
    and "\<And>t. \<not> P (Sleep t)" and "\<And>h. \<not> P (GetDeviceStatus h)"
    and "\<And>h. \<not> P (StartScan h)" and "\<And>h. \<not> P (GetScanData h)"
  shows "filter P (trace w') = filter P (trace w)"
  using get_spectrum_outcomes [OF assms(1)] filter_polls [of P, OF assms(2,3)] assms(3-5)
  by (elim conjE disjE exE) simp_all

lemma set_integration_time_filter:
  assumes "set_integration_time drv self v w = (r, self', w')"
    and "\<And>h t. \<not> P (SetIntegrationTime h t)" and "\<And>h. \<not> P (GetIntegrationTime h)"
  shows "filter P (trace w') = filter P (trace w)"
    and "wavelength_data self' = wavelength_data self" and "handle self' = handle self"
    and "files w' = files w"
  using assms
  by (auto simp add: set_integration_time_eq Let_def emit_sel split: option.splits if_splits)

lemma plot_spectrum_filter:
  assumes "plot_spectrum py g self wd sd sh fn w = (r, self', w')"
    and "\<And>t xs ys. \<not> P (Plot t xs ys)" and "\<not> P Show" and "\<And>f. \<not> P (SaveFig f)"
  shows "filter P (trace w') = filter P (trace w)" and "self' = self" and "files w' = files w"
  using assms
  by (auto simp add: plot_spectrum_def Let_def split: option.splits if_splits)

text \<open>
  C8. A construction that returns an object has made five driver calls, once each and
  in this order: the init call that opens the handle, the identification query (five
  strings), the wavelength query, the status query and the reading of the integration
  time. No later operation (\<^verbatim>\<open>get_integration_time\<close>, \<^verbatim>\<open>set_integration_time\<close>,
  \<^verbatim>\<open>get_spectrum\<close>, \<^verbatim>\<open>plot_spectrum\<close>, \<^verbatim>\<open>close\<close>) queries the wavelength table or
  changes the stored one.
\<close>

theorem construction_reads_wavelengths_once:
  "(Spectrometer drv serial_number name' reset verbose' very_verbose' w = (Inr self, w') \<longrightarrow>
      trace w' = trace w @
        [Init (''USB0::0x1313::0x8081::'' @ serial_number @ ''::RAW'') True reset,
         IdentificationQuery (handle self), GetWavelengthData (handle self) False,
         GetDeviceStatus (handle self), GetIntegrationTime (handle self)]
      \<and> length (device_info self) = 5 \<and> length (wavelength_data self) = 3648)
   \<and> (get_integration_time drv s w1 = (r1, s1, w1') \<longrightarrow>
        wavelength_data s1 = wavelength_data s
        \<and> filter is_wavelength_read (trace w1') = filter is_wavelength_read (trace w1))
   \<and> (set_integration_time drv s v w2 = (r2, s2, w2') \<longrightarrow>
        wavelength_data s2 = wavelength_data s
        \<and> filter is_wavelength_read (trace w2') = filter is_wavelength_read (trace w2))
   \<and> (get_spectrum n py drv s filename w3 = (r3, s3, w3') \<longrightarrow>
        wavelength_data s3 = wavelength_data s
        \<and> filter is_wavelength_read (trace w3') = filter is_wavelength_read (trace w3))
   \<and> (plot_spectrum py g s wd sd sh fn w4 = (r4, s4, w4') \<longrightarrow>
        wavelength_data s4 = wavelength_data s
        \<and> filter is_wavelength_read (trace w4') = filter is_wavelength_read (trace w4))
   \<and> (close drv s w5 = (r5, s5, w5') \<longrightarrow>
        wavelength_data s5 = wavelength_data s
        \<and> filter is_wavelength_read (trace w5') = filter is_wavelength_read (trace w5))"
proof (intro conjI impI)
  assume a: "Spectrometer drv serial_number name' reset verbose' very_verbose' w = (Inr self, w')"
  show "trace w' = trace w @
        [Init (''USB0::0x1313::0x8081::'' @ serial_number @ ''::RAW'') True reset,
         IdentificationQuery (handle self), GetWavelengthData (handle self) False,
         GetDeviceStatus (handle self), GetIntegrationTime (handle self)]"
    by (rule Spectrometer_ok(1) [OF a])
  show "length (device_info self) = 5"
    by (rule Spectrometer_ok(3) [OF a])
  show "length (wavelength_data self) = 3648"
    by (rule Spectrometer_ok(4) [OF a])
next
  assume a: "get_integration_time drv s w1 = (r1, s1, w1')"
  from get_integration_time_frame [OF a]
  show "wavelength_data s1 = wavelength_data s"
    and "filter is_wavelength_read (trace w1') = filter is_wavelength_read (trace w1)"
    by simp_all
next
  assume a: "set_integration_time drv s v w2 = (r2, s2, w2')"
  show "wavelength_data s2 = wavelength_data s"
    by (rule set_integration_time_filter(2) [OF a, of is_wavelength_read]) simp_all
  show "filter is_wavelength_read (trace w2') = filter is_wavelength_read (trace w2)"
    by (rule set_integration_time_filter(1) [OF a]) simp_all
next
  assume a: "get_spectrum n py drv s filename w3 = (r3, s3, w3')"
  from get_spectrum_outcomes [OF a] show "wavelength_data s3 = wavelength_data s"
    by simp
  show "filter is_wavelength_read (trace w3') = filter is_wavelength_read (trace w3)"
    by (rule get_spectrum_filter [OF a]) simp_all
next
  assume a: "plot_spectrum py g s wd sd sh fn w4 = (r4, s4, w4')"
  from plot_spectrum_filter(2) [OF a, of is_wavelength_read]
  show "wavelength_data s4 = wavelength_data s" by simp
  show "filter is_wavelength_read (trace w4') = filter is_wavelength_read (trace w4)"
    by (rule plot_spectrum_filter(1) [OF a]) simp_all
next
  assume a: "close drv s w5 = (r5, s5, w5')"
  then show "wavelength_data s5 = wavelength_data s"
    and "filter is_wavelength_read (trace w5') = filter is_wavelength_read (trace w5)"
    by (auto simp add: close_eq Let_def emit_sel split: if_splits)
qed


lemma Spectrometer_filter:
  assumes "Spectrometer drv serial_number name' reset verbose' very_verbose' w = (r, w')"
    and "\<And>rn a b. \<not> P (Init rn a b)" and "\<And>h. \<not> P (IdentificationQuery h)"
    and "\<And>h b. \<not> P (GetWavelengthData h b)" and "\<And>h. \<not> P (GetDeviceStatus h)"
    and "\<And>h. \<not> P (GetIntegrationTime h)"
  shows "filter P (trace w') = filter P (trace w)" and "files w' = files w"
proof -
  let ?rn = "''USB0::0x1313::0x8081::'' @ serial_number @ ''::RAW''"
  obtain r1 h w1 where i1: "dll_init drv ?rn True reset w = (r1, h, w1)"
    by (cases "dll_init drv ?rn True reset w")
  let ?s1 = "new_spectrometer name' verbose' very_verbose' h"
  obtain r2 self2 w2 where i2: "get_device_info drv ?s1 w1 = (r2, self2, w2)"
    by (cases "get_device_info drv ?s1 w1")
  obtain r3 self3 w3 where i3: "get_wavelength_data drv self2 False w2 = (r3, self3, w3)"
    by (cases "get_wavelength_data drv self2 False w2")
  obtain r4 self4 w4 where i4: "get_status drv self3 w3 = (r4, self4, w4)"
    by (cases "get_status drv self3 w3")
  obtain r5 self5 w5 where i5: "get_integration_time drv self4 w4 = (r5, self5, w5)"
    by (cases "get_integration_time drv self4 w4")
  note f1 = dll_init_frame [OF i1]
  note f2 = get_device_info_frame [OF i2]
  note f3 = get_wavelength_data_frame [OF i3]
  note f4 = get_status_frame [OF i4]
  note f5 = get_integration_time_frame [OF i5]
  have t: "filter P (trace w1) = filter P (trace w)" "filter P (trace w2) = filter P (trace w)"
    "filter P (trace w3) = filter P (trace w)" "filter P (trace w4) = filter P (trace w)"
    "filter P (trace w5) = filter P (trace w)"
    using f1(1) f2(1) f3(1) f4(5) f5(1) assms(2-6) by simp_all
  have fl: "files w1 = files w" "files w2 = files w" "files w3 = files w" "files w4 = files w"
    "files w5 = files w"
    using f1(2) f2(2) f3(2) f4(6) f5(2) by simp_all
  from assms(1) i1 i2 i3 i4 i5
  have "w' = w \<or> w' = w1 \<or> w' = w2 \<or> w' = w3 \<or> w' = w4 \<or> w' = w5"
    by (auto simp add: Spectrometer_def encode_ascii_def split: if_splits sum.splits)
  with t fl show "filter P (trace w') = filter P (trace w)" and "files w' = files w"
    by auto
qed

lemma get_spectrum_handle:
  assumes "get_spectrum n py drv self filename w = (r, self', w')"
  shows "handle self' = handle self"
  using get_spectrum_outcomes [OF assms] by simp

lemma close_frame:
  assumes "close drv self w = (r, self', w')"
  shows "self' = self" "trace w' = trace w @ [Close (handle self)]" "files w' = files w"
    "r = (if fst (tlccs_close drv (handle self) (dev w)) = 0 then Inr ()
          else Inl (UserWarning (fst (tlccs_close drv (handle self) (dev w)))))"
  using assms by (auto simp add: close_eq Let_def emit_sel split: if_splits)

lemma main_script_closes:
  assumes "main_script n py drv w = (r, w')"
  shows "(r \<noteq> Some (Inr ()) \<and> filter is_close (trace w') = filter is_close (trace w))
         \<or> ((r = Some (Inr ()) \<or> (\<exists>c. r = Some (Inl (UserWarning c))))
             \<and> filter is_close (trace w') = filter is_close (trace w) @
                 [Close (fst (snd (tlccs_init drv ''USB0::0x1313::0x8081::M00405433::RAW''
                    True True (dev w))))])"
  (is "?none \<or> ?once")
proof -
  obtain r0 w1 where
    c0: "Spectrometer drv ''M00405433'' ''CCS100'' True True False w = (r0, w1)"
    by (cases "Spectrometer drv ''M00405433'' ''CCS100'' True True False w")
  have t1: "filter is_close (trace w1) = filter is_close (trace w)"
    by (rule Spectrometer_filter(1) [OF c0]) simp_all
  show ?thesis
  proof (cases r0)
    case (Inl e)
    with assms c0 have "r = Some (Inl e)" "w' = w1"
      by (simp_all add: main_script_def)
    with t1 show ?thesis by simp
  next
    case spec1: (Inr spec1)
    have h1: "handle spec1 = fst (snd (tlccs_init drv ''USB0::0x1313::0x8081::M00405433::RAW''
                    True True (dev w)))"
      using Spectrometer_ok(6) [OF c0 [unfolded spec1]] by simp
    obtain r1 spec2 w2 where
      c1: "set_integration_time drv spec1 (PyFloat (1 / 10)) w1 = (r1, spec2, w2)"
      by (cases "set_integration_time drv spec1 (PyFloat (1 / 10)) w1")
    have t2: "filter is_close (trace w2) = filter is_close (trace w)"
      using set_integration_time_filter(1) [OF c1, of is_close] t1 by simp
    have h2: "handle spec2 = handle spec1"
      by (rule set_integration_time_filter(3) [OF c1, of is_close]) simp_all
    show ?thesis
    proof (cases r1)
      case (Inl e)
      with assms c0 spec1 c1 have "r = Some (Inl e)" "w' = w2"
        by (simp_all add: main_script_def)
      with t2 show ?thesis by simp
    next
      case u1: (Inr u1)
      obtain r2 spec3 w3 where c2: "get_spectrum n py drv spec2 None w2 = (r2, spec3, w3)"
        by (cases "get_spectrum n py drv spec2 None w2")
      have t3: "filter is_close (trace w3) = filter is_close (trace w)"
        using get_spectrum_filter [OF c2, of is_close] t2 by simp
      have h3: "handle spec3 = handle spec2"
        by (rule get_spectrum_handle [OF c2])
      have early2: ?thesis if "r2 = None \<or> (\<exists>e. r2 = Some (Inl e))"
      proof -
        from that assms c0 spec1 c1 u1 c2 have "r \<noteq> Some (Inr ())" "w' = w3"
          by (auto simp add: main_script_def)
        with t3 show ?thesis by simp
      qed
      show ?thesis
      proof (cases "r2 = None \<or> (\<exists>e. r2 = Some (Inl e))")
        case True
        then show ?thesis by (rule early2)
      next
        case False
        then obtain v2 where v2: "r2 = Some (Inr v2)"
          by (cases r2) (auto, metis sum.exhaust)
        obtain r3 spec4 w4 where
          c3: "plot_spectrum py (Some spec3) spec3 None None True None w3 = (r3, spec4, w4)"
          by (cases "plot_spectrum py (Some spec3) spec3 None None True None w3")
        have t4: "filter is_close (trace w4) = filter is_close (trace w)"
          using plot_spectrum_filter(1) [OF c3, of is_close] t3 by simp
        have h4: "spec4 = spec3"
          by (rule plot_spectrum_filter(2) [OF c3, of is_close]) simp_all
        show ?thesis
        proof (cases r3)
          case (Inl e)
          with assms c0 spec1 c1 u1 c2 v2 c3 have "r = Some (Inl e)" "w' = w4"
            by (simp_all add: main_script_def)
          with t4 show ?thesis by simp
        next
          case u3: (Inr u3)
          obtain r4 spec5 w5 where
            c4: "get_spectrum n py drv spec4 (Some ''example'') w4 = (r4, spec5, w5)"
            by (cases "get_spectrum n py drv spec4 (Some ''example'') w4")
          have t5: "filter is_close (trace w5) = filter is_close (trace w)"
            using get_spectrum_filter [OF c4, of is_close] t4 by simp
          have h5: "handle spec5 = handle spec4"
            by (rule get_spectrum_handle [OF c4])
          show ?thesis
          proof (cases "r4 = None \<or> (\<exists>e. r4 = Some (Inl e))")
            case True
            with assms c0 spec1 c1 u1 c2 v2 c3 u3 c4 have "r \<noteq> Some (Inr ())" "w' = w5"
              by (auto simp add: main_script_def)
            with t5 show ?thesis by simp
          next
            case False
            then obtain v4 where v4: "r4 = Some (Inr v4)"
              by (cases r4) (auto, metis sum.exhaust)
            obtain r5 spec6 w6 where
              c5: "plot_spectrum py (Some spec5) spec5 None None False (Some ''example'') w5
                     = (r5, spec6, w6)"
              by (cases "plot_spectrum py (Some spec5) spec5 None None False
                           (Some ''example'') w5")
            have t6: "filter is_close (trace w6) = filter is_close (trace w)"
              using plot_spectrum_filter(1) [OF c5, of is_close] t5 by simp
            have h6: "spec6 = spec5"
              by (rule plot_spectrum_filter(2) [OF c5, of is_close]) simp_all
            show ?thesis
            proof (cases r5)
              case (Inl e)
              with assms c0 spec1 c1 u1 c2 v2 c3 u3 c4 v4 c5
              have "r = Some (Inl e)" "w' = w6"
                by (simp_all add: main_script_def)
              with t6 show ?thesis by simp
            next
              case u5: (Inr u5)
              obtain r6 spec7 w7 where c6: "close drv spec6 w6 = (r6, spec7, w7)"
                by (cases "close drv spec6 w6")
              note f6 = close_frame [OF c6]
              have h: "handle spec6 = fst (snd (tlccs_init drv
                  ''USB0::0x1313::0x8081::M00405433::RAW'' True True (dev w)))"
                using h1 h2 h3 h4 h5 h6 by simp
              have t7: "filter is_close (trace w7) = filter is_close (trace w) @
                  [Close (fst (snd (tlccs_init drv
                     ''USB0::0x1313::0x8081::M00405433::RAW'' True True (dev w))))]"
                using f6(2) t6 h by simp
              from assms c0 spec1 c1 u1 c2 v2 c3 u3 c4 v4 c5 u5 c6
              have "w' = w7" "r = (case r6 of Inl e \<Rightarrow> Some (Inl e) | Inr _ \<Rightarrow> Some (Inr ()))"
                by (auto simp add: main_script_def split: sum.splits)
              with t7 f6(4) have ?once
                by (auto split: if_splits)
              then show ?thesis ..
            qed
          qed
        qed
      qed
    qed
  qed
qed


theorem construction_reads_wavelengths_once_witness:
  "trace (snd (Spectrometer sim_driver ''M00405433'' ''CCS100'' True True False
       (sim_world [0x0002] (1 / 10))))
     = [Init ''USB0::0x1313::0x8081::M00405433::RAW'' True True, IdentificationQuery 7,
        GetWavelengthData 7 False, GetDeviceStatus 7, GetIntegrationTime 7]
   \<and> filter is_wavelength_read (trace (snd (snd (get_spectrum 5 sim_python sim_driver
       sim_spectrometer None (sim_world [0x0002, 0x0004, 0x0010] (1 / 10)))))) = []
   \<and> wavelength_data (fst (snd (get_spectrum 5 sim_python sim_driver
       sim_spectrometer None (sim_world [0x0002, 0x0004, 0x0010] (1 / 10)))))
       = c_array 3648 [350, 351, 352]"
proof -
  let ?c = "Spectrometer sim_driver ''M00405433'' ''CCS100'' True True False
       (sim_world [0x0002] (1 / 10))"
  let ?g = "get_spectrum 5 sim_python sim_driver sim_spectrometer None
       (sim_world [0x0002, 0x0004, 0x0010] (1 / 10))"
  have c: "?c = (Inr (projr (fst ?c)), snd ?c)"
    by (simp add: sim_construct)
  have g: "?g = (fst ?g, fst (snd ?g), snd (snd ?g))"
    by simp
  have tw: "trace (sim_world sts t) = []" for sts t
    by (simp add: sim_world_def)
  have wd: "wavelength_data sim_spectrometer = c_array 3648 [350, 351, 352]"
    by (simp add: sim_spectrometer_def)
  note inst = construction_reads_wavelengths_once
      [where drv = sim_driver and serial_number = "''M00405433''" and name' = "''CCS100''"
         and reset = True and verbose' = True and very_verbose' = False
         and w = "sim_world [0x0002] (1 / 10)" and w' = "snd ?c"
         and self = "projr (fst ?c)"
         and n = 5 and py = sim_python and s = sim_spectrometer and filename = None
         and ?w3.0 = "sim_world [0x0002, 0x0004, 0x0010] (1 / 10)"
         and ?r3.0 = "fst ?g" and ?s3.0 = "fst (snd ?g)" and ?w3' = "snd (snd ?g)"]
  from inst [THEN conjunct1, rule_format, OF c]
  have "trace (snd ?c) = trace (sim_world [0x0002] (1 / 10)) @
        [Init (''USB0::0x1313::0x8081::'' @ ''M00405433'' @ ''::RAW'') True True,
         IdentificationQuery (handle (projr (fst ?c))),
         GetWavelengthData (handle (projr (fst ?c))) False,
         GetDeviceStatus (handle (projr (fst ?c))),
         GetIntegrationTime (handle (projr (fst ?c)))]"
    by simp
  moreover have "handle (projr (fst ?c)) = 7"
    by (simp add: sim_construct)
  moreover
  from inst [THEN conjunct2, THEN conjunct2, THEN conjunct2, THEN conjunct1, rule_format, OF g]
  have "wavelength_data (fst (snd ?g)) = wavelength_data sim_spectrometer
        \<and> filter is_wavelength_read (trace (snd (snd ?g)))
            = filter is_wavelength_read (trace (sim_world [0x0002, 0x0004, 0x0010] (1 / 10)))"
    by simp
  ultimately show ?thesis
    by (simp add: tw wd)
qed

text \<open>
  C7. The claim fails on the code. The adaptor keeps no record of whether the handle is
  open, and nothing releases the handle when a call raises. What holds: each call of
  \<^verbatim>\<open>close\<close> issues the driver close call once, on the handle of the object, and leaves
  the object as it was, so a second call of \<^verbatim>\<open>close\<close> issues it again on the same
  handle; the script at the end of the file issues it once, on the handle it opened,
  when it runs to its end, and not at all when it is still polling or when an earlier
  statement raised an exception other than the \<^verbatim>\<open>UserWarning\<close> of a driver call.
\<close>

theorem close_issues_one_driver_call:
  "(close drv self w = (r, self', w') \<longrightarrow>
      self' = self \<and> trace w' = trace w @ [Close (handle self)]
      \<and> r = (if fst (tlccs_close drv (handle self) (dev w)) = 0 then Inr ()
              else Inl (UserWarning (fst (tlccs_close drv (handle self) (dev w))))))
   \<and> (close drv self w = (r, self', w') \<and> close drv self' w' = (r', self'', w'') \<longrightarrow>
        trace w'' = trace w @ [Close (handle self), Close (handle self)])
   \<and> (main_script n py drv w0 = (Some (Inr ()), w1) \<longrightarrow>
        filter is_close (trace w1) = filter is_close (trace w0) @
          [Close (fst (snd (tlccs_init drv ''USB0::0x1313::0x8081::M00405433::RAW''
             True True (dev w0))))])
   \<and> (main_script n py drv w0 = (r0, w2)
        \<and> (r0 = None \<or> (\<exists>e. r0 = Some (Inl e) \<and> (\<forall>c. e \<noteq> UserWarning c))) \<longrightarrow>
        filter is_close (trace w2) = filter is_close (trace w0))"
proof (intro conjI impI)
  assume a: "close drv self w = (r, self', w')"
  from close_frame [OF a]
  show "self' = self" and "trace w' = trace w @ [Close (handle self)]"
    and "r = (if fst (tlccs_close drv (handle self) (dev w)) = 0 then Inr ()
              else Inl (UserWarning (fst (tlccs_close drv (handle self) (dev w)))))"
    by simp_all
next
  assume "close drv self w = (r, self', w') \<and> close drv self' w' = (r', self'', w'')"
  then have a: "close drv self w = (r, self', w')" and b: "close drv self' w' = (r', self'', w'')"
    by simp_all
  from close_frame(1,2) [OF a] close_frame(2) [OF b]
  show "trace w'' = trace w @ [Close (handle self), Close (handle self)]"
    by simp
next
  assume "main_script n py drv w0 = (Some (Inr ()), w1)"
  from main_script_closes [OF this]
  show "filter is_close (trace w1) = filter is_close (trace w0) @
          [Close (fst (snd (tlccs_init drv ''USB0::0x1313::0x8081::M00405433::RAW''
             True True (dev w0))))]"
    by simp
next
  assume "main_script n py drv w0 = (r0, w2)
        \<and> (r0 = None \<or> (\<exists>e. r0 = Some (Inl e) \<and> (\<forall>c. e \<noteq> UserWarning c)))"
  then have a: "main_script n py drv w0 = (r0, w2)"
    and b: "r0 = None \<or> (\<exists>e. r0 = Some (Inl e) \<and> (\<forall>c. e \<noteq> UserWarning c))"
    by simp_all
  from main_script_closes [OF a] b
  show "filter is_close (trace w2) = filter is_close (trace w0)"
    by auto
qed

lemma replicate_5: "replicate 5 x = [x, x, x, x, x]"
  by (simp add: numeral_eq_Suc)

lemma fixed_construct:
  "Spectrometer (fixed_driver 0 st t) ''M00405433'' ''CCS100'' True True False unit_world
     = (Inr \<lparr>name = ''CCS100'', verbose = True, very_verbose = False, handle = 7,
             device_info = [[], [], [], [], []],
             wavelength_data = c_array 3648 [],
             wavelength_min = 0, wavelength_max = 0,
             status = st, status_idle_soft_trig = bit st 1, status_idle_ext_trig = bit st 7,
             status_scan_starting = bit st 3, status_scan_in_progress = bit st 2,
             status_scan_ready = bit st 4, integration_time_s = t, scan_data = None\<rparr>,
        \<lparr>dev = (),
         trace = [Init ''USB0::0x1313::0x8081::M00405433::RAW'' True True,
                  IdentificationQuery 7, GetWavelengthData 7 False, GetDeviceStatus 7,
                  GetIntegrationTime 7],
         files = Map.empty\<rparr>)"
  by (simp add: Spectrometer_def encode_ascii_def is_ascii_def dll_init_def
      get_device_info_def dll_get_device_info_def c_char_value_def
      get_wavelength_data_def dll_get_wavelength_data_def get_status_eq
      get_integration_time_eq check_error_def fixed_driver_def unit_world_def
      new_spectrometer_def emit_def Let_def replicate_5)

lemma main_script_aborted:
  "main_script 5 sim_python (fixed_driver 0 0x0010 0) unit_world
     = (Some (Inl AssertionError),
        \<lparr>dev = (),
         trace = [Init ''USB0::0x1313::0x8081::M00405433::RAW'' True True,
                  IdentificationQuery 7, GetWavelengthData 7 False, GetDeviceStatus 7,
                  GetIntegrationTime 7, SetIntegrationTime 7 (1 / 10), GetIntegrationTime 7],
         files = Map.empty\<rparr>)"
proof -
  have "\<not> within_tolerance (1 / 10) 0"
    by (rule tol_test_false) simp_all
  then show ?thesis
    unfolding main_script_def fixed_construct
    by (simp add: set_integration_time_eq fixed_driver_def emit_def Let_def)
qed

theorem close_twice_counterexample:
  "fst (close (fixed_driver 0 0 0) sim_spectrometer unit_world) = Inr ()
   \<and> fst (close (fixed_driver 0 0 0)
            (fst (snd (close (fixed_driver 0 0 0) sim_spectrometer unit_world)))
            (snd (snd (close (fixed_driver 0 0 0) sim_spectrometer unit_world)))) = Inr ()
   \<and> trace (snd (snd (close (fixed_driver 0 0 0)
            (fst (snd (close (fixed_driver 0 0 0) sim_spectrometer unit_world)))
            (snd (snd (close (fixed_driver 0 0 0) sim_spectrometer unit_world))))))
       = [Close 7, Close 7]
   \<and> fst (main_script 5 sim_python (fixed_driver 0 0x0010 0) unit_world)
       = Some (Inl AssertionError)
   \<and> trace (snd (main_script 5 sim_python (fixed_driver 0 0x0010 0) unit_world))
       = [Init ''USB0::0x1313::0x8081::M00405433::RAW'' True True,
          IdentificationQuery 7, GetWavelengthData 7 False, GetDeviceStatus 7,
          GetIntegrationTime 7, SetIntegrationTime 7 (1 / 10), GetIntegrationTime 7]"
  unfolding main_script_aborted
  by (simp add: close_eq fixed_driver_def unit_world_def
      sim_spectrometer_def new_spectrometer_def emit_def Let_def)


lemma sim_construct_queue:
  "Spectrometer sim_driver ''M00405433'' ''CCS100'' True True False (sim_world (st # sts) t)
     = (Inr \<lparr>name = ''CCS100'', verbose = True, very_verbose = False, handle = 7,
             device_info = [''Thorlabs'', ''CCS100'', ''M00405433'', ''1.2.0'', ''2.0.0''],
             wavelength_data = c_array 3648 [350, 351, 352],
             wavelength_min = 350, wavelength_max = 700,
             status = st, status_idle_soft_trig = bit st 1, status_idle_ext_trig = bit st 7,
             status_scan_starting = bit st 3, status_scan_in_progress = bit st 2,
             status_scan_ready = bit st 4, integration_time_s = t, scan_data = None\<rparr>,
        \<lparr>dev = \<lparr>sim_status = sts, sim_time = t\<rparr>,
         trace = [Init ''USB0::0x1313::0x8081::M00405433::RAW'' True True,
                  IdentificationQuery 7, GetWavelengthData 7 False, GetDeviceStatus 7,
                  GetIntegrationTime 7],
         files = Map.empty\<rparr>)"
  by (simp add: Spectrometer_def encode_ascii_def is_ascii_def dll_init_def
      get_device_info_def dll_get_device_info_def c_char_value_def
      get_wavelength_data_def dll_get_wavelength_data_def get_status_eq
      get_integration_time_eq check_error_def sim_driver_def sim_world_def
      new_spectrometer_def emit_def Let_def)

lemma main_script_completes:
  "fst (main_script 5 sim_python sim_driver
          (sim_world [0x0002, 0x0002, 0x0010, 0x0002, 0x0010] (1 / 10))) = Some (Inr ())"
proof -
  have "within_tolerance (1 / 10) (1 / 10)"
    by (rule tol_test_true) simp_all
  then show ?thesis
    unfolding main_script_def sim_construct_queue
    by (simp add: set_integration_time_eq get_spectrum_def get_status_eq start_scan_eq
        get_scan_data_eq wait_for_scan.simps time_sleep_def plot_spectrum_def close_eq
        save_spectrum_def sim_driver_def emit_def Let_def)
qed

theorem close_issues_one_driver_call_witness:
  "close (fixed_driver 0 0 0) sim_spectrometer unit_world
     = (Inr (), sim_spectrometer, \<lparr>dev = (), trace = [Close 7], files = Map.empty\<rparr>)
   \<and> fst (main_script 5 sim_python sim_driver
          (sim_world [0x0002, 0x0002, 0x0010, 0x0002, 0x0010] (1 / 10))) = Some (Inr ())
   \<and> filter is_close (trace (snd (main_script 5 sim_python sim_driver
          (sim_world [0x0002, 0x0002, 0x0010, 0x0002, 0x0010] (1 / 10))))) = [Close 7]
   \<and> fst (main_script 5 sim_python (fixed_driver 0 0x0010 0) unit_world)
       = Some (Inl AssertionError)
   \<and> filter is_close (trace (snd (main_script 5 sim_python (fixed_driver 0 0x0010 0)
          unit_world))) = []"
proof -
  let ?c = "close (fixed_driver 0 0 0) sim_spectrometer unit_world"
  let ?w = "sim_world [0x0002, 0x0002, 0x0010, 0x0002, 0x0010] (1 / 10)"
  let ?m = "main_script 5 sim_python sim_driver ?w"
  let ?a = "main_script 5 sim_python (fixed_driver 0 0x0010 0) unit_world"
  have c: "?c = (fst ?c, fst (snd ?c), snd (snd ?c))"
    by simp
  have m: "?m = (Some (Inr ()), snd ?m)"
    using main_script_completes by (simp add: prod_eq_iff)
  have a: "?a = (Some (Inl AssertionError), snd ?a)
           \<and> (Some (Inl AssertionError) = None
               \<or> (\<exists>e. Some (Inl AssertionError) = Some (Inl e) \<and> (\<forall>c. e \<noteq> UserWarning c)))"
    by (simp add: main_script_aborted)
  have tw: "trace ?w = []" "trace unit_world = []" "dev unit_world = ()"
    "files unit_world = Map.empty"
    by (simp_all add: sim_world_def unit_world_def)
  have h: "handle sim_spectrometer = 7"
    "fst (snd (tlccs_init sim_driver ''USB0::0x1313::0x8081::M00405433::RAW'' True True
       (dev ?w))) = 7"
    "fst (tlccs_close (fixed_driver 0 0 0) 7 ()) = 0"
    by (simp_all add: sim_spectrometer_def new_spectrometer_def sim_driver_def
        fixed_driver_def)
  note inst = close_issues_one_driver_call
      [where drv = "fixed_driver 0 0 0" and self = sim_spectrometer and w = unit_world
         and r = "fst ?c" and self' = "fst (snd ?c)" and w' = "snd (snd ?c)"]
  from inst [THEN conjunct1, rule_format, OF c]
  have c1: "fst (snd ?c) = sim_spectrometer" "trace (snd (snd ?c)) = [Close 7]"
    "fst ?c = Inr ()"
    by (simp_all add: tw h)
  have c2: "dev (snd (snd ?c)) = ()" "files (snd (snd ?c)) = Map.empty"
    by (simp_all add: close_eq Let_def emit_def unit_world_def)
  have cw: "snd (snd ?c) = \<lparr>dev = (), trace = [Close 7], files = Map.empty\<rparr>"
    using c1(2) c2 by (cases "snd (snd ?c)") simp
  from close_issues_one_driver_call
      [where n = 5 and py = sim_python and drv = sim_driver and ?w0.0 = ?w
         and ?w1.0 = "snd ?m",
       THEN conjunct2, THEN conjunct2, THEN conjunct1, rule_format, OF m]
  have m1: "filter is_close (trace (snd ?m)) = [Close 7]"
    by (simp add: tw h)
  from close_issues_one_driver_call
      [where n = 5 and py = sim_python and drv = "fixed_driver 0 0x0010 0"
         and ?w0.0 = unit_world and ?r0.0 = "Some (Inl AssertionError)"
         and ?w2.0 = "snd ?a",
       THEN conjunct2, THEN conjunct2, THEN conjunct2, rule_format, OF a]
  have a1: "filter is_close (trace (snd ?a)) = []"
    by (simp add: tw)
  from c c1 cw m m1 a a1 main_script_completes show ?thesis
    by (simp add: prod_eq_iff)
qed

end
